theory Spec2Isabelle
  imports Main "HOL-Library.Monad_Syntax"
begin

section \<open>Addon versioning: \<^verbatim>\<open>versioning.py\<close>\<close>

text \<open>
  A shallow embedding of the two classes of \<^verbatim>\<open>versioning.py\<close>, \<^verbatim>\<open>ReleaseState\<close> and
  \<^verbatim>\<open>Version\<close>. Python's integers are \<^typ>\<open>int\<close>, its strings are \<^typ>\<open>string\<close> (ASCII
  only), a raised exception is the \<open>Inl\<close> branch of a sum. A method \<^verbatim>\<open>C.m\<close> is the constant
  \<open>C_m\<close>; a leading underscore of a private method is dropped.
\<close>

subsection \<open>Exceptions\<close>

text \<open>
  The exceptions the module can raise, each with the text \<^verbatim>\<open>str(ex)\<close> returns:
  \<^verbatim>\<open>ValueError\<close> (raised by the module, by \<^verbatim>\<open>int()\<close> and by the enum's constructor) and
  \<^verbatim>\<open>AttributeError\<close> (an attribute read on an object that has no such attribute).
\<close>

datatype error = ValueError string | AttributeError string

fun error_str :: "error \<Rightarrow> string" where
  "error_str (ValueError m) = m"
| "error_str (AttributeError m) = m"

definition err_bind :: "error + 'a \<Rightarrow> ('a \<Rightarrow> error + 'b) \<Rightarrow> error + 'b" where
  "err_bind m f = (case m of Inl e \<Rightarrow> Inl e | Inr x \<Rightarrow> f x)"

subsection \<open>Decimal rendering and reading of integers\<close>

text \<open>
  \<^verbatim>\<open>str(n)\<close> and \<^verbatim>\<open>'%d' % n\<close> render an integer in decimal, with a leading minus sign
  when it is negative. \<^verbatim>\<open>int(s)\<close> is only ever called by the module on a capture of one of
  its regular expressions, a run of digits or a run of letters: on a non-empty run of digits it
  returns the number, on anything else the model raises the \<^verbatim>\<open>ValueError\<close> Python raises for
  a string that is not a number (signs, blanks and underscores, which \<^verbatim>\<open>int()\<close> also reads,
  never reach it). Integers are unbounded; the limit that an interpreter may put on the number
  of digits of either conversion is not modelled.
\<close>

definition digits :: string where
  "digits = ''0123456789''"

definition is_digit :: "char \<Rightarrow> bool" where
  "is_digit c = (c \<in> set digits)"

definition is_letter :: "char \<Rightarrow> bool" where
  "is_letter c = (c \<in> set ''abcdefghijklmnopqrstuvwxyzABCDEFGHIJKLMNOPQRSTUVWXYZ'')"

definition digit_char :: "nat \<Rightarrow> char" where
  \<comment> \<open>the character of a digit below 10\<close>
  "digit_char d = digits ! d"

definition digit_val :: "char \<Rightarrow> nat" where
  \<comment> \<open>the value of a digit character: its index in \<open>digits\<close>\<close>
  "digit_val c = length (takeWhile (\<lambda>d. d \<noteq> c) digits)"

fun show_nat :: "nat \<Rightarrow> string" where
  "show_nat n = (if n < 10 then [digit_char n] else show_nat (n div 10) @ [digit_char (n mod 10)])"

declare show_nat.simps [simp del]

definition show_int :: "int \<Rightarrow> string" where
  "show_int n = (if n < 0 then CHR ''-'' # show_nat (nat (- n)) else show_nat (nat n))"

definition nat_of_digits :: "string \<Rightarrow> nat" where
  "nat_of_digits s = foldl (\<lambda>acc c. acc * 10 + digit_val c) 0 s"

definition py_repr :: "string \<Rightarrow> string" where
  \<comment> \<open>\<^verbatim>\<open>repr(s)\<close> of a string without quotes, backslashes or control characters\<close>
  "py_repr s = [CHR 0x27] @ s @ [CHR 0x27]"

definition py_int :: "string \<Rightarrow> error + int" where
  "py_int s =
     (if s \<noteq> [] \<and> list_all is_digit s then Inr (int (nat_of_digits s))
      else Inl (ValueError (''invalid literal for int() with base 10: '' @ py_repr s)))"

fun is_prefix :: "string \<Rightarrow> string \<Rightarrow> bool" where
  "is_prefix [] s = True"
| "is_prefix (c # cs) [] = False"
| "is_prefix (c # cs) (d # ds) = (c = d \<and> is_prefix cs ds)"

fun str_contains :: "string \<Rightarrow> string \<Rightarrow> bool" where
  \<comment> \<open>\<^verbatim>\<open>sub in s\<close>\<close>
  "str_contains sub [] = (sub = [])"
| "str_contains sub (c # cs) = (is_prefix sub (c # cs) \<or> str_contains sub cs)"

fun join :: "string \<Rightarrow> string list \<Rightarrow> string" where
  \<comment> \<open>\<^verbatim>\<open>sep.join(xs)\<close>\<close>
  "join sep [] = []"
| "join sep [x] = x"
| "join sep (x # y # ys) = x @ sep @ join sep (y # ys)"

subsection \<open>\<^verbatim>\<open>ReleaseState\<close>\<close>

text \<open>
  \<^verbatim>\<open>
  class ReleaseState(IntEnum):
      ALPHA = 1
      BETA = 2
      RC = 3
      STABLE = 4
  \<close>
  A member of an \<^verbatim>\<open>IntEnum\<close> is an integer: it compares with plain integers and with
  booleans by its value. The constructor call \<^verbatim>\<open>ReleaseState(n)\<close> looks the member up by
  value and raises \<^verbatim>\<open>ValueError\<close> when there is none; \<^verbatim>\<open>ReleaseState[name]\<close> looks it
  up by name.
\<close>

datatype ReleaseState = ALPHA | BETA | RC | STABLE

fun state_value :: "ReleaseState \<Rightarrow> int" where
  "state_value ALPHA = 1"
| "state_value BETA = 2"
| "state_value RC = 3"
| "state_value STABLE = 4"

fun state_name :: "ReleaseState \<Rightarrow> string" where
  "state_name ALPHA = ''ALPHA''"
| "state_name BETA = ''BETA''"
| "state_name RC = ''RC''"
| "state_name STABLE = ''STABLE''"

definition ReleaseState_call :: "int \<Rightarrow> error + ReleaseState" where
  \<comment> \<open>\<^verbatim>\<open>ReleaseState(n)\<close>\<close>
  "ReleaseState_call n =
     (if n = 1 then Inr ALPHA else if n = 2 then Inr BETA else if n = 3 then Inr RC
      else if n = 4 then Inr STABLE
      else Inl (ValueError (show_int n @ '' is not a valid ReleaseState'')))"

definition ReleaseState_item :: "string \<Rightarrow> ReleaseState" where
  \<comment> \<open>\<^verbatim>\<open>ReleaseState[name]\<close>, called on one of the four names only\<close>
  "ReleaseState_item name =
     (if name = ''ALPHA'' then ALPHA else if name = ''BETA'' then BETA
      else if name = ''RC'' then RC else STABLE)"

text \<open>
  The \<^verbatim>\<open>state\<close> field of a \<^verbatim>\<open>Version\<close> is annotated as a \<^verbatim>\<open>ReleaseState\<close>, but the
  dataclass stores whatever object it is given, and the tuples of \<^verbatim>\<open>bl_info\<close> hold plain
  integers. So the object in that field is either a plain integer or a member of the enum.
  Both are integers for \<^verbatim>\<open>==\<close>, \<^verbatim>\<open><\<close> and arithmetic; only a member has the attributes
  \<^verbatim>\<open>.value\<close> and \<^verbatim>\<open>.name\<close>.
\<close>

datatype state_obj = Plain int | Member ReleaseState

fun obj_int :: "state_obj \<Rightarrow> int" where
  "obj_int (Plain n) = n"
| "obj_int (Member s) = state_value s"

definition no_attribute :: "string \<Rightarrow> error" where
  "no_attribute a =
     AttributeError (py_repr ''int'' @ '' object has no attribute '' @ py_repr a)"

fun obj_value :: "state_obj \<Rightarrow> error + int" where
  \<comment> \<open>\<^verbatim>\<open>obj.value\<close>\<close>
  "obj_value (Plain n) = Inl (no_attribute ''value'')"
| "obj_value (Member s) = Inr (state_value s)"

fun obj_name :: "state_obj \<Rightarrow> error + string" where
  \<comment> \<open>\<^verbatim>\<open>obj.name\<close>\<close>
  "obj_name (Plain n) = Inl (no_attribute ''name'')"
| "obj_name (Member s) = Inr (state_name s)"

text \<open>
  \<^verbatim>\<open>
  def bump(cls, state):
      if state == 4:
          return state
      else:
          return ReleaseState(state + 1)
  \<close>
\<close>

definition ReleaseState_bump :: "state_obj \<Rightarrow> error + state_obj" where
  "ReleaseState_bump state =
     (if obj_int state = 4 then Inr state
      else err_bind (ReleaseState_call (obj_int state + 1)) (\<lambda>s. Inr (Member s)))"

text \<open>
  \<^verbatim>\<open>
  def from_value(cls, value):
      if type(value) == str and value in ('ALPHA', 'BETA', 'RC', 'STABLE'):
          return ReleaseState[value]
      return ReleaseState(int(value))
  \<close>
  The argument is a string (a capture of a regular expression) or an integer.
\<close>

datatype int_or_str = IntArg int | StrArg string

fun ReleaseState_from_value :: "int_or_str \<Rightarrow> error + ReleaseState" where
  "ReleaseState_from_value (StrArg v) =
     (if v \<in> set [''ALPHA'', ''BETA'', ''RC'', ''STABLE''] then Inr (ReleaseState_item v)
      else err_bind (py_int v) ReleaseState_call)"
| "ReleaseState_from_value (IntArg n) = ReleaseState_call n"

subsection \<open>\<^verbatim>\<open>Version\<close>: the dataclass, its tuple and its order\<close>

text \<open>
  \<^verbatim>\<open>
  @dataclass(order=True, frozen=True)
  class Version:
      release: int
      feature: int
      patch: int
      state: Literal[ReleaseState.ALPHA, ReleaseState.BETA, ReleaseState.RC, ReleaseState.STABLE]
      increment: int
      brelease: int
      bfeature: int
      bpatch: int
      build: int
  \<close>
\<close>

record Version =
  release :: int
  feature :: int
  patch :: int
  state :: state_obj
  increment :: int
  brelease :: int
  bfeature :: int
  bpatch :: int
  build :: int

text \<open>
  A tuple of nine objects, as \<^verbatim>\<open>bl_info\<close> holds it and as \<^verbatim>\<open>to_tuple\<close> returns it; the
  field \<open>tN\<close> is the element at index \<open>N\<close>. The list \<^verbatim>\<open>tmp\<close> of \<^verbatim>\<open>bump\<close> has the same
  shape, and \<^verbatim>\<open>tmp[N] = x\<close> is the record update of \<open>tN\<close>.
\<close>

record tuple9 =
  t0 :: int
  t1 :: int
  t2 :: int
  t3 :: state_obj
  t4 :: int
  t5 :: int
  t6 :: int
  t7 :: int
  t8 :: int

text \<open>
  \<^verbatim>\<open>Version(r, f, p, s, i, br, bf, bp, b)\<close>, the constructor the dataclass generates, and
  the tuple \<^verbatim>\<open>(r, f, p, s, i, br, bf, bp, b)\<close>.
\<close>

abbreviation Version_init ::
  "int \<Rightarrow> int \<Rightarrow> int \<Rightarrow> state_obj \<Rightarrow> int \<Rightarrow> int \<Rightarrow> int \<Rightarrow> int \<Rightarrow> int \<Rightarrow> Version" where
  "Version_init r f p s i br bf bp b \<equiv>
     \<lparr>release = r, feature = f, patch = p, state = s, increment = i, brelease = br,
      bfeature = bf, bpatch = bp, build = b\<rparr>"

abbreviation tuple_init ::
  "int \<Rightarrow> int \<Rightarrow> int \<Rightarrow> state_obj \<Rightarrow> int \<Rightarrow> int \<Rightarrow> int \<Rightarrow> int \<Rightarrow> int \<Rightarrow> tuple9" where
  "tuple_init r f p s i br bf bp b \<equiv>
     \<lparr>t0 = r, t1 = f, t2 = p, t3 = s, t4 = i, t5 = br, t6 = bf, t7 = bp, t8 = b\<rparr>"

text \<open>
  \<^verbatim>\<open>
  def from_tuple(cls, version):
      return Version(*version)

  def to_tuple(cls, version):
      return (version.release, version.feature, version.patch, version.state.value,
              version.increment, version.brelease, version.bfeature, version.bpatch,
              version.build)
  \<close>
\<close>

definition Version_from_tuple :: "tuple9 \<Rightarrow> Version" where
  "Version_from_tuple version =
     \<lparr>release = t0 version, feature = t1 version, patch = t2 version, state = t3 version,
      increment = t4 version, brelease = t5 version, bfeature = t6 version,
      bpatch = t7 version, build = t8 version\<rparr>"

definition Version_to_tuple :: "Version \<Rightarrow> error + tuple9" where
  "Version_to_tuple version =
     err_bind (obj_value (state version)) (\<lambda>sv.
       Inr \<lparr>t0 = release version, t1 = feature version, t2 = patch version, t3 = Plain sv,
            t4 = increment version, t5 = brelease version, t6 = bfeature version,
            t7 = bpatch version, t8 = build version\<rparr>)"

text \<open>
  Python compares two tuples element by element with \<^verbatim>\<open>==\<close>, and orders them by the first
  pair of elements that differ. A plain integer and a member of the enum are equal when their
  values are, so a tuple is compared through the integers it holds. The dataclass compares two
  versions as the tuples of their fields, in the order of declaration.
\<close>

definition tuple_ints :: "tuple9 \<Rightarrow> int list" where
  "tuple_ints t = [t0 t, t1 t, t2 t, obj_int (t3 t), t4 t, t5 t, t6 t, t7 t, t8 t]"

definition tuple_eq :: "tuple9 \<Rightarrow> tuple9 \<Rightarrow> bool" where
  "tuple_eq a b = (tuple_ints a = tuple_ints b)"

fun ints_lt :: "int list \<Rightarrow> int list \<Rightarrow> bool" where
  "ints_lt [] [] = False"
| "ints_lt [] (y # ys) = True"
| "ints_lt (x # xs) [] = False"
| "ints_lt (x # xs) (y # ys) = (if x = y then ints_lt xs ys else x < y)"

definition Version_fields :: "Version \<Rightarrow> int list" where
  "Version_fields v =
     [release v, feature v, patch v, obj_int (state v), increment v, brelease v, bfeature v,
      bpatch v, build v]"

definition Version_eq :: "Version \<Rightarrow> Version \<Rightarrow> bool" where
  "Version_eq a b = (Version_fields a = Version_fields b)"

definition Version_lt :: "Version \<Rightarrow> Version \<Rightarrow> bool" where
  "Version_lt a b = ints_lt (Version_fields a) (Version_fields b)"

text \<open>
  \<^verbatim>\<open>
  def _validate_blender(cls, version):
      if not version.brelease:
          raise ValueError('no blender min version requirement specified')
  \<close>
\<close>

definition no_blender_msg :: string where
  "no_blender_msg = ''no blender min version requirement specified''"

definition Version_validate_blender :: "Version \<Rightarrow> error + unit" where
  "Version_validate_blender version =
     (if brelease version = 0 then Inl (ValueError no_blender_msg) else Inr ())"

subsection \<open>\<^verbatim>\<open>Version.bump\<close>\<close>

text \<open>
  \<^verbatim>\<open>
  def bump(cls, version, release: bool = False, feature: bool = False, patch: bool = False,
           state: bool = False, increment: bool = False, build: int = None,
           blender: tuple = None) -> 'Version':
      tmp = list(Version.to_tuple(version))

      # fix state as it is now an int
      tmp[3] = ReleaseState.from_value(tmp[3])

      if release or feature or patch:
          if release:
              tmp[0] = version.release + 1
              tmp[1] = 0  # feature
          elif feature:
              tmp[1] = version.feature + 1
          elif patch:
              tmp[2] = version.patch + 1

          if release or feature:
              tmp[2] = 0  # patch
              tmp[3] = ReleaseState.ALPHA
              tmp[4] = 1  # increment
      elif state:
          tmp[3] = ReleaseState.bump(version.state)
          tmp[4] = 0 if state == ReleaseState.STABLE else 1
      elif increment and tmp[3] != ReleaseState.STABLE:
          tmp[4] = version.increment + 1

      if release or feature or patch or state or increment:
          # we do not have a build yet
          tmp[8] = 0  # build

      if build:
          tmp[8] = build

      if blender:
          tmp[5] = blender[0]  # brelease
          tmp[6] = blender[1]  # bfeature
          tmp[7] = blender[2]  # bpatch

      result = Version.from_tuple(tuple(tmp))
      Version._validate_blender(result)
      return result
  \<close>
  The parameters share their names with the fields, so the flag \<^verbatim>\<open>release\<close> is
  \<open>release_flag\<close> here (and so on), and \<^verbatim>\<open>build\<close> and \<^verbatim>\<open>blender\<close> are \<open>build_arg\<close>
  and \<open>blender_arg\<close>. The five flags are booleans. In \<^verbatim>\<open>state == ReleaseState.STABLE\<close>
  the name \<^verbatim>\<open>state\<close> is the flag, and a boolean is the integer 0 or 1 for \<^verbatim>\<open>==\<close>. The
  parameters \<^verbatim>\<open>build\<close> and \<^verbatim>\<open>blender\<close> are \<open>None\<close> when they are not supplied;
  \<^verbatim>\<open>if build:\<close> holds for an integer other than 0, \<^verbatim>\<open>if blender:\<close> for every tuple
  of three.
\<close>

definition bool_int :: "bool \<Rightarrow> int" where
  "bool_int b = (if b then 1 else 0)"

definition bump_axis ::
  "Version \<Rightarrow> bool \<Rightarrow> bool \<Rightarrow> bool \<Rightarrow> bool \<Rightarrow> bool \<Rightarrow> tuple9 \<Rightarrow> error + tuple9" where
  \<comment> \<open>the chain \<^verbatim>\<open>if release or feature or patch: ... elif state: ... elif increment ...\<close>\<close>
  "bump_axis version release_flag feature_flag patch_flag state_flag increment_flag tmp =
     (if release_flag \<or> feature_flag \<or> patch_flag then
        let tmp = (if release_flag then tmp\<lparr>t0 := release version + 1, t1 := 0\<rparr>
                   else if feature_flag then tmp\<lparr>t1 := feature version + 1\<rparr>
                   else if patch_flag then tmp\<lparr>t2 := patch version + 1\<rparr>
                   else tmp)
        in Inr (if release_flag \<or> feature_flag
                then tmp\<lparr>t2 := 0, t3 := Member ALPHA, t4 := 1\<rparr> else tmp)
      else if state_flag then
        err_bind (ReleaseState_bump (state version)) (\<lambda>s.
          Inr (tmp\<lparr>t3 := s,
                   t4 := (if bool_int state_flag = state_value STABLE then 0 else 1)\<rparr>))
      else if increment_flag \<and> obj_int (t3 tmp) \<noteq> state_value STABLE then
        Inr (tmp\<lparr>t4 := increment version + 1\<rparr>)
      else Inr tmp)"

definition bump_tuple ::
  "Version \<Rightarrow> bool \<Rightarrow> bool \<Rightarrow> bool \<Rightarrow> bool \<Rightarrow> bool \<Rightarrow> int option \<Rightarrow> (int \<times> int \<times> int) option
     \<Rightarrow> error + tuple9" where
  \<comment> \<open>the body of \<^verbatim>\<open>bump\<close> down to the last assignment to \<^verbatim>\<open>tmp\<close>\<close>
  "bump_tuple version release_flag feature_flag patch_flag state_flag increment_flag
       build_arg blender_arg =
     err_bind (Version_to_tuple version) (\<lambda>tmp.
     err_bind (ReleaseState_from_value (IntArg (obj_int (t3 tmp)))) (\<lambda>s.
     err_bind (bump_axis version release_flag feature_flag patch_flag state_flag increment_flag
                 (tmp\<lparr>t3 := Member s\<rparr>))
       (\<lambda>tmp.
         let tmp = (if release_flag \<or> feature_flag \<or> patch_flag \<or> state_flag \<or> increment_flag
                    then tmp\<lparr>t8 := 0\<rparr> else tmp);
             tmp = (case build_arg of
                      None \<Rightarrow> tmp
                    | Some b \<Rightarrow> if b \<noteq> 0 then tmp\<lparr>t8 := b\<rparr> else tmp);
             tmp = (case blender_arg of
                      None \<Rightarrow> tmp
                    | Some (b0, b1, b2) \<Rightarrow> tmp\<lparr>t5 := b0, t6 := b1, t7 := b2\<rparr>)
         in Inr tmp)))"

definition Version_bump ::
  "Version \<Rightarrow> bool \<Rightarrow> bool \<Rightarrow> bool \<Rightarrow> bool \<Rightarrow> bool \<Rightarrow> int option \<Rightarrow> (int \<times> int \<times> int) option
     \<Rightarrow> error + Version" where
  "Version_bump version release_flag feature_flag patch_flag state_flag increment_flag
       build_arg blender_arg =
     err_bind (bump_tuple version release_flag feature_flag patch_flag state_flag increment_flag
                 build_arg blender_arg) (\<lambda>tmp.
       let result = Version_from_tuple tmp
       in err_bind (Version_validate_blender result) (\<lambda>_. Inr result))"

subsection \<open>The two grammars\<close>

text \<open>
  \<^verbatim>\<open>
  _VERSION_PART_REGEXP = r'(?P<r>\d+)[.](?P<f>\d+)[.](?P<p>\d+)'
  _VERSION_STATE_PART_REGEXP = r'[.](?P<s>\d)[.](?P<i>\d+)'
  _VERSION_BLENDER_VERSION_PART_REGEXP = r'(?P<br>\d+)[.](?P<bf>\d+)[.](?P<bp>\d+)'
  _VERSION_BLENDER_PART_REGEXP = r'[.]' + _VERSION_BLENDER_VERSION_PART_REGEXP
  _VERSION_BUILD_PART_REGEXP = r'([.](?P<b>\d+))?'
  _VERSION_REGEXP = ''.join([r'^', _VERSION_PART_REGEXP, _VERSION_STATE_PART_REGEXP,
      _VERSION_BLENDER_PART_REGEXP, _VERSION_BUILD_PART_REGEXP, r'$'])

  _SEMVER_PRERELEASE_PART_REGEXP =
      r'[-](?P<s>[a-zA-Z]+)(?P<i>\d+)?[-]' + _VERSION_BLENDER_VERSION_PART_REGEXP
  _SEMVER_BUILD_PART_REGEXP = r'([+](?P<b>\d+))?'
  _SEMVER_REGEXP = ''.join([r'^', _VERSION_PART_REGEXP, _SEMVER_PRERELEASE_PART_REGEXP,
      _SEMVER_BUILD_PART_REGEXP, r'$'])
  \<close>
  Both expressions are sequences of character-class runs and single literal characters, and
  every run \<^verbatim>\<open>\d+\<close> or \<^verbatim>\<open>[a-zA-Z]+\<close> is followed by a character outside its class or by
  the end. A run that stops short of the longest one leaves a character of its own class in
  front of what follows, which then cannot match; so the backtracking matcher of \<^verbatim>\<open>re\<close>
  succeeds exactly when the scan that takes every run as long as possible does, with the same
  captures. The optional groups are scanned the same way: a group that does not match captures
  \<open>None\<close> and consumes nothing, and the scan goes on. \<^verbatim>\<open>$\<close> matches at the end of the
  string and in front of a line feed that ends it. That the scanners accept the strings of the
  two expressions, and no others, is \<open>match_version_iff\<close> and \<open>match_semver_iff\<close> below.

  On ASCII strings, which are the strings of the model, \<^verbatim>\<open>\d\<close> is one of the ten digits;
  the decimal digits of other scripts, which \<^verbatim>\<open>\d\<close> and \<^verbatim>\<open>int()\<close> also read, are outside
  the model.
\<close>

definition many1 :: "(char \<Rightarrow> bool) \<Rightarrow> string \<Rightarrow> (string \<times> string) option" where
  \<comment> \<open>a run \<^verbatim>\<open>c+\<close> of a class: the capture and the rest\<close>
  "many1 P s = (if takeWhile P s = [] then None else Some (takeWhile P s, dropWhile P s))"

definition one :: "(char \<Rightarrow> bool) \<Rightarrow> string \<Rightarrow> (string \<times> string) option" where
  \<comment> \<open>one character of a class\<close>
  "one P s = (case s of [] \<Rightarrow> None | c # cs \<Rightarrow> if P c then Some ([c], cs) else None)"

definition lit :: "char \<Rightarrow> string \<Rightarrow> string option" where
  \<comment> \<open>one literal character\<close>
  "lit c s = (case s of [] \<Rightarrow> None | d # ds \<Rightarrow> if d = c then Some ds else None)"

definition opt_many1 :: "(char \<Rightarrow> bool) \<Rightarrow> string \<Rightarrow> (string option \<times> string) option" where
  \<comment> \<open>\<^verbatim>\<open>(?P<i>\d+)?\<close>: never fails\<close>
  "opt_many1 P s =
     (case many1 P s of None \<Rightarrow> Some (None, s) | Some (m, r) \<Rightarrow> Some (Some m, r))"

definition opt_build :: "char \<Rightarrow> string \<Rightarrow> (string option \<times> string) option" where
  \<comment> \<open>\<^verbatim>\<open>([.](?P<b>\d+))?\<close> and \<^verbatim>\<open>([+](?P<b>\d+))?\<close>: never fails\<close>
  "opt_build c s =
     (case lit c s of
        None \<Rightarrow> Some (None, s)
      | Some r \<Rightarrow>
          (case many1 is_digit r of
             None \<Rightarrow> Some (None, s)
           | Some (m, r') \<Rightarrow> Some (Some m, r')))"

definition at_end :: "string \<Rightarrow> bool" where
  \<comment> \<open>\<^verbatim>\<open>$\<close>\<close>
  "at_end s = (s = [] \<or> s = [CHR 0x0A])"

text \<open>
  \<^verbatim>\<open>matches.groupdict()\<close>: the captures by name. The groups \<open>i\<close> and \<open>b\<close> can be
  unmatched, and are \<open>None\<close> then.
\<close>

record groupdict =
  g_r :: string
  g_f :: string
  g_p :: string
  g_s :: string
  g_i :: "string option"
  g_br :: string
  g_bf :: string
  g_bp :: string
  g_b :: "string option"

text \<open>
  One scanner for each part the module builds its expressions from; a scanner returns the
  captures of its part and the rest of the string.
\<close>

definition version_part :: "string \<Rightarrow> ((string \<times> string \<times> string) \<times> string) option" where
  \<comment> \<open>\<^verbatim>\<open>_VERSION_PART_REGEXP\<close>: the groups \<open>r\<close>, \<open>f\<close>, \<open>p\<close>\<close>
  "version_part s = do {
     (r, s) \<leftarrow> many1 is_digit s;
     s \<leftarrow> lit CHR ''.'' s;
     (f, s) \<leftarrow> many1 is_digit s;
     s \<leftarrow> lit CHR ''.'' s;
     (p, s) \<leftarrow> many1 is_digit s;
     Some ((r, f, p), s)
   }"

definition version_state_part :: "string \<Rightarrow> ((string \<times> string) \<times> string) option" where
  \<comment> \<open>\<^verbatim>\<open>_VERSION_STATE_PART_REGEXP\<close>: the groups \<open>s\<close>, \<open>i\<close>\<close>
  "version_state_part s = do {
     s \<leftarrow> lit CHR ''.'' s;
     (st, s) \<leftarrow> one is_digit s;
     s \<leftarrow> lit CHR ''.'' s;
     (i, s) \<leftarrow> many1 is_digit s;
     Some ((st, i), s)
   }"

definition version_blender_version_part ::
  "string \<Rightarrow> ((string \<times> string \<times> string) \<times> string) option" where
  \<comment> \<open>\<^verbatim>\<open>_VERSION_BLENDER_VERSION_PART_REGEXP\<close>: the groups \<open>br\<close>, \<open>bf\<close>, \<open>bp\<close>\<close>
  "version_blender_version_part s = do {
     (br, s) \<leftarrow> many1 is_digit s;
     s \<leftarrow> lit CHR ''.'' s;
     (bf, s) \<leftarrow> many1 is_digit s;
     s \<leftarrow> lit CHR ''.'' s;
     (bp, s) \<leftarrow> many1 is_digit s;
     Some ((br, bf, bp), s)
   }"

definition version_blender_part ::
  "string \<Rightarrow> ((string \<times> string \<times> string) \<times> string) option" where
  \<comment> \<open>\<^verbatim>\<open>_VERSION_BLENDER_PART_REGEXP\<close>\<close>
  "version_blender_part s = do {
     s \<leftarrow> lit CHR ''.'' s;
     version_blender_version_part s
   }"

definition version_build_part :: "string \<Rightarrow> (string option \<times> string) option" where
  \<comment> \<open>\<^verbatim>\<open>_VERSION_BUILD_PART_REGEXP\<close>: the group \<open>b\<close>\<close>
  "version_build_part s = opt_build CHR ''.'' s"

definition semver_prerelease_part ::
  "string \<Rightarrow> ((string \<times> string option \<times> string \<times> string \<times> string) \<times> string) option" where
  \<comment> \<open>\<^verbatim>\<open>_SEMVER_PRERELEASE_PART_REGEXP\<close>: the groups \<open>s\<close>, \<open>i\<close>, \<open>br\<close>, \<open>bf\<close>, \<open>bp\<close>\<close>
  "semver_prerelease_part s = do {
     s \<leftarrow> lit CHR ''-'' s;
     (st, s) \<leftarrow> many1 is_letter s;
     (i, s) \<leftarrow> opt_many1 is_digit s;
     s \<leftarrow> lit CHR ''-'' s;
     ((br, bf, bp), s) \<leftarrow> version_blender_version_part s;
     Some ((st, i, br, bf, bp), s)
   }"

definition semver_build_part :: "string \<Rightarrow> (string option \<times> string) option" where
  \<comment> \<open>\<^verbatim>\<open>_SEMVER_BUILD_PART_REGEXP\<close>: the group \<open>b\<close>\<close>
  "semver_build_part s = opt_build CHR ''+'' s"

definition match_version :: "string \<Rightarrow> groupdict option" where
  \<comment> \<open>\<^verbatim>\<open>re.match(_VERSION_REGEXP, version)\<close>, and \<^verbatim>\<open>groupdict()\<close> of the match\<close>
  "match_version version = do {
     ((r, f, p), s) \<leftarrow> version_part version;
     ((st, i), s) \<leftarrow> version_state_part s;
     ((br, bf, bp), s) \<leftarrow> version_blender_part s;
     (b, s) \<leftarrow> version_build_part s;
     if at_end s
     then Some \<lparr>g_r = r, g_f = f, g_p = p, g_s = st, g_i = Some i, g_br = br, g_bf = bf,
                g_bp = bp, g_b = b\<rparr>
     else None
   }"

definition match_semver :: "string \<Rightarrow> groupdict option" where
  \<comment> \<open>\<^verbatim>\<open>re.match(_SEMVER_REGEXP, version)\<close>, and \<^verbatim>\<open>groupdict()\<close> of the match\<close>
  "match_semver version = do {
     ((r, f, p), s) \<leftarrow> version_part version;
     ((st, i, br, bf, bp), s) \<leftarrow> semver_prerelease_part s;
     (b, s) \<leftarrow> semver_build_part s;
     if at_end s
     then Some \<lparr>g_r = r, g_f = f, g_p = p, g_s = st, g_i = i, g_br = br, g_bf = bf,
                g_bp = bp, g_b = b\<rparr>
     else None
   }"

subsection \<open>\<^verbatim>\<open>Version\<close>: parsing\<close>

text \<open>
  \<^verbatim>\<open>
  def _from_dict(cls, d: dict) -> 'Version':
      return Version.from_tuple((
          int(d['r']),
          int(d['f']),
          int(d['p']),
          ReleaseState.from_value(d['s']),
          int(d['i']) if d['i'] else 0,
          int(d['br']),
          int(d['bf']),
          int(d['bp']),
          int(d['b']) if d['b'] else 0
      ))
  \<close>
\<close>

definition int_or_0 :: "string option \<Rightarrow> error + int" where
  \<comment> \<open>\<^verbatim>\<open>int(x) if x else 0\<close>: \<open>None\<close> and the empty string are false\<close>
  "int_or_0 x = (case x of None \<Rightarrow> Inr 0 | Some s \<Rightarrow> if s = [] then Inr 0 else py_int s)"

definition Version_from_dict :: "groupdict \<Rightarrow> error + Version" where
  "Version_from_dict d =
     err_bind (py_int (g_r d)) (\<lambda>r.
     err_bind (py_int (g_f d)) (\<lambda>f.
     err_bind (py_int (g_p d)) (\<lambda>p.
     err_bind (ReleaseState_from_value (StrArg (g_s d))) (\<lambda>s.
     err_bind (int_or_0 (g_i d)) (\<lambda>i.
     err_bind (py_int (g_br d)) (\<lambda>br.
     err_bind (py_int (g_bf d)) (\<lambda>bf.
     err_bind (py_int (g_bp d)) (\<lambda>bp.
     err_bind (int_or_0 (g_b d)) (\<lambda>b.
       Inr (Version_from_tuple
              \<lparr>t0 = r, t1 = f, t2 = p, t3 = Member s, t4 = i, t5 = br, t6 = bf, t7 = bp,
               t8 = b\<rparr>))))))))))"

text \<open>
  \<^verbatim>\<open>
  def _from_semver_string(cls, version: str) -> 'Version':
      matches = re.match(_SEMVER_REGEXP, version)
      if matches is None:
          raise ValueError(
              '"%s" is not a valid addon semver version string, e.g. "1.0.0-ALPHA1-2.93.0"'
              % version
          )
      result = Version._from_dict(matches.groupdict())
      Version._validate_blender(result)
      return result
  \<close>
\<close>

definition quoted :: "string \<Rightarrow> string" where
  "quoted s = [CHR 0x22] @ s @ [CHR 0x22]"

definition no_semver_msg :: "string \<Rightarrow> string" where
  "no_semver_msg version =
     quoted version @ '' is not a valid addon semver version string, e.g. ''
       @ quoted ''1.0.0-ALPHA1-2.93.0''"

definition no_version_msg :: "string \<Rightarrow> string" where
  "no_version_msg version =
     quoted version @ '' is not a valid addon version string, e.g. ''
       @ quoted ''1.0.0.1.1.2.93.0.0'' @ '' or '' @ quoted ''1.0.0-ALPHA1-2.93.0''"

definition Version_from_semver_string :: "string \<Rightarrow> error + Version" where
  "Version_from_semver_string version =
     (case match_semver version of
        None \<Rightarrow> Inl (ValueError (no_semver_msg version))
      | Some d \<Rightarrow>
          err_bind (Version_from_dict d) (\<lambda>result.
          err_bind (Version_validate_blender result) (\<lambda>_. Inr result)))"

text \<open>
  \<^verbatim>\<open>
  def from_string(cls, version: str) -> 'Version':
      matches = re.match(_VERSION_REGEXP, version)
      if matches is None:
          ex_handled = None
          try:
              return Version._from_semver_string(version)
          except ValueError as ex:
              if 'blender' in str(ex):
                  raise ex
              ex_handled = ex
          finally:
              if ex_handled:
                  raise ValueError(
                      '"%s" is not a valid addon version string, e.g. "1.0.0.1.1.2.93.0.0" or "1.0.0-ALPHA1-2.93.0"'
                      % version
                  ) from ex_handled

      result = Version._from_dict(matches.groupdict())
      Version._validate_blender(result)
      return result
  \<close>
  In the \<^verbatim>\<open>try\<close> statement a returned version is returned, a \<^verbatim>\<open>ValueError\<close> whose text
  contains \<^verbatim>\<open>blender\<close> is raised again as it is, any other \<^verbatim>\<open>ValueError\<close> is replaced in
  the \<^verbatim>\<open>finally\<close> clause by the one that names both encodings, and an exception of another
  class passes through.
\<close>

definition Version_from_string :: "string \<Rightarrow> error + Version" where
  "Version_from_string version =
     (case match_version version of
        None \<Rightarrow>
          (case Version_from_semver_string version of
             Inr result \<Rightarrow> Inr result
           | Inl (ValueError m) \<Rightarrow>
               if str_contains ''blender'' (error_str (ValueError m)) then Inl (ValueError m)
               else Inl (ValueError (no_version_msg version))
           | Inl ex \<Rightarrow> Inl ex)
      | Some d \<Rightarrow>
          err_bind (Version_from_dict d) (\<lambda>result.
          err_bind (Version_validate_blender result) (\<lambda>_. Inr result)))"

subsection \<open>\<^verbatim>\<open>Version\<close>: formatting\<close>

text \<open>
  \<^verbatim>\<open>
  def __str__(self) -> str:
      return '.'.join([str(item) for item in Version.to_tuple(self)])

  def to_semver(cls, version: 'Version') -> str:
      return ''.join([
          '%d.%d.%d' % (version.release, version.feature, version.patch),
          '-%s%s-%d.%d.%d' % (
              version.state.name,
              '' if version.state == ReleaseState.STABLE else str(version.increment),
              version.brelease,
              version.bfeature,
              version.bpatch
          ),
          '+%d' % version.build if version.build else ''
      ])
  \<close>
\<close>

definition Version_str :: "Version \<Rightarrow> error + string" where
  "Version_str self =
     err_bind (Version_to_tuple self) (\<lambda>t. Inr (join ''.'' (map show_int (tuple_ints t))))"

definition Version_to_semver :: "Version \<Rightarrow> error + string" where
  "Version_to_semver version =
     err_bind (obj_name (state version)) (\<lambda>name.
       Inr (show_int (release version) @ ''.'' @ show_int (feature version) @ ''.''
            @ show_int (patch version)
            @ ''-'' @ name
            @ (if obj_int (state version) = state_value STABLE then []
               else show_int (increment version))
            @ ''-'' @ show_int (brelease version) @ ''.'' @ show_int (bfeature version)
            @ ''.'' @ show_int (bpatch version)
            @ (if build version \<noteq> 0 then ''+'' @ show_int (build version) else [])))"

subsection \<open>Well-formed versions and the shape of a rendering\<close>

text \<open>
  The numeric fields of a version are integers that are not negative: the grammars produce no
  others, and a negative one is rendered with a minus sign that neither grammar reads.
\<close>

definition nonneg_fields :: "Version \<Rightarrow> bool" where
  "nonneg_fields v =
     (0 \<le> release v \<and> 0 \<le> feature v \<and> 0 \<le> patch v \<and> 0 \<le> increment v \<and> 0 \<le> brelease v
      \<and> 0 \<le> bfeature v \<and> 0 \<le> bpatch v \<and> 0 \<le> build v)"

text \<open>
  What the parts of the two expressions say of a string, to state which strings a scanner
  accepts: a run is a non-empty string of characters of one class, and a string starts with a
  class when its first character is of that class. \<open>opt_text pre x\<close> is the text of an
  optional group, nothing when the group is unmatched.
\<close>

definition run :: "(char \<Rightarrow> bool) \<Rightarrow> string \<Rightarrow> bool" where
  "run P x = (x \<noteq> [] \<and> list_all P x)"

definition starts_with :: "(char \<Rightarrow> bool) \<Rightarrow> string \<Rightarrow> bool" where
  "starts_with P s = (case s of [] \<Rightarrow> False | c # cs \<Rightarrow> P c)"

definition opt_text :: "string \<Rightarrow> string option \<Rightarrow> string" where
  "opt_text pre x = (case x of None \<Rightarrow> [] | Some y \<Rightarrow> pre @ y)"

definition opt_run :: "(char \<Rightarrow> bool) \<Rightarrow> string option \<Rightarrow> bool" where
  "opt_run P x = (case x of None \<Rightarrow> True | Some y \<Rightarrow> run P y)"

text \<open>
  The capture of the build group in the semver rendering of a build \<open>b\<close>, and the part of
  that rendering after the second dash: the host floor and the build, which is left out when it
  is 0.
\<close>

definition build_capture :: "nat \<Rightarrow> string option" where
  "build_capture b = (if b \<noteq> 0 then Some (show_nat b) else None)"

definition semver_tail :: "nat \<Rightarrow> nat \<Rightarrow> nat \<Rightarrow> nat \<Rightarrow> string" where
  "semver_tail br bf bp b =
     show_nat br @ CHR ''.'' # show_nat bf @ CHR ''.'' # show_nat bp
       @ (if b \<noteq> 0 then CHR ''+'' # show_nat b else [])"

section \<open>Properties of the model\<close>

subsection \<open>Decimal numbers\<close>

lemma below_10: "d < 10 \<Longrightarrow> d \<in> {0, 1, 2, 3, 4, 5, 6, 7, 8, 9 :: nat}"
  by auto

lemma is_digit_digit_char: "d < 10 \<Longrightarrow> is_digit (digit_char d)"
  unfolding is_digit_def digit_char_def by (rule nth_mem) (simp add: digits_def)

lemma digit_val_digit_char: "d < 10 \<Longrightarrow> digit_val (digit_char d) = d"
  using below_10 [of d] by (auto simp add: digit_val_def digit_char_def digits_def)

lemma state_value_below_10: "nat (state_value s) < 10"
  by (cases s) simp_all

lemma show_nat_all_digits: "list_all is_digit (show_nat n)"
  by (induction n rule: show_nat.induct) (subst show_nat.simps, simp add: is_digit_digit_char)

lemma show_nat_not_Nil: "show_nat n \<noteq> []"
  by (subst show_nat.simps) simp

lemma run_show_nat: "run is_digit (show_nat n)"
  by (simp add: run_def show_nat_all_digits show_nat_not_Nil)

lemma nat_of_digits_snoc: "nat_of_digits (s @ [c]) = nat_of_digits s * 10 + digit_val c"
  by (simp add: nat_of_digits_def)

lemma nat_of_digits_show_nat: "nat_of_digits (show_nat n) = n"
proof (induction n rule: show_nat.induct)
  case (1 n)
  show ?case
  proof (cases "n < 10")
    case True
    then show ?thesis
      by (subst show_nat.simps) (simp add: nat_of_digits_def digit_val_digit_char)
  next
    case False
    with 1 have "nat_of_digits (show_nat (n div 10)) = n div 10" by simp
    with False show ?thesis
      by (subst show_nat.simps) (simp add: nat_of_digits_snoc digit_val_digit_char)
  qed
qed

lemma py_int_show_nat: "py_int (show_nat n) = Inr (int n)"
  by (simp add: py_int_def show_nat_not_Nil show_nat_all_digits nat_of_digits_show_nat)

lemma show_int_nonneg: "0 \<le> n \<Longrightarrow> show_int n = show_nat (nat n)"
  by (simp add: show_int_def)

subsection \<open>The scanners accept what the expressions match\<close>

text \<open>
  Each scanner is characterised by the strings its expression matches, read as a language: a
  part matches a string when the string is the concatenation of pieces that match the
  elements of the part. The rest that a scanner leaves does not start with a character its last
  run could have taken.
\<close>

lemma starts_with_simps:
  "starts_with P [] = False" "starts_with P (c # cs) = P c"
  by (simp_all add: starts_with_def)

lemma takeWhile_run: "list_all P m \<Longrightarrow> \<not> starts_with P r \<Longrightarrow> takeWhile P (m @ r) = m"
  by (induction m) (auto simp add: starts_with_def split: list.splits)

lemma dropWhile_run: "list_all P m \<Longrightarrow> \<not> starts_with P r \<Longrightarrow> dropWhile P (m @ r) = r"
  by (induction m) (auto simp add: starts_with_def split: list.splits)

lemma not_starts_dropWhile: "\<not> starts_with P (dropWhile P s)"
  by (induction s) (simp_all add: starts_with_def)

lemma many1_iff:
  "many1 P s = Some (m, r) \<longleftrightarrow> run P m \<and> s = m @ r \<and> \<not> starts_with P r"
proof
  assume "many1 P s = Some (m, r)"
  then have m: "m = takeWhile P s" and r: "r = dropWhile P s" and ne: "takeWhile P s \<noteq> []"
    by (auto simp add: many1_def split: if_splits)
  have "list_all P (takeWhile P s)"
    by (auto simp add: list_all_iff dest: set_takeWhileD)
  with m r ne show "run P m \<and> s = m @ r \<and> \<not> starts_with P r"
    by (simp add: run_def not_starts_dropWhile)
next
  assume "run P m \<and> s = m @ r \<and> \<not> starts_with P r"
  then show "many1 P s = Some (m, r)"
    by (simp add: many1_def run_def takeWhile_run dropWhile_run)
qed

lemma lit_iff: "lit c s = Some r \<longleftrightarrow> s = c # r"
  by (auto simp add: lit_def split: list.splits)

lemma one_iff: "one P s = Some (m, r) \<longleftrightarrow> (\<exists>c. m = [c] \<and> P c \<and> s = c # r)"
  by (auto simp add: one_def split: list.splits)

lemma not_digit_seps:
  "\<not> is_digit CHR ''.''" "\<not> is_digit CHR ''-''" "\<not> is_digit CHR ''+''" "\<not> is_digit CHR 0x0A"
  by (simp_all add: is_digit_def digits_def)

lemma version_part_iff:
  "version_part s = Some ((r, f, p), rest) \<longleftrightarrow>
     run is_digit r \<and> run is_digit f \<and> run is_digit p \<and>
     s = r @ ''.'' @ f @ ''.'' @ p @ rest \<and> \<not> starts_with is_digit rest"
  by (auto simp add: version_part_def Option.bind_eq_Some_conv many1_iff lit_iff
      starts_with_simps not_digit_seps)

lemma version_blender_version_part_iff:
  "version_blender_version_part s = Some ((br, bf, bp), rest) \<longleftrightarrow>
     run is_digit br \<and> run is_digit bf \<and> run is_digit bp \<and>
     s = br @ ''.'' @ bf @ ''.'' @ bp @ rest \<and> \<not> starts_with is_digit rest"
  by (auto simp add: version_blender_version_part_def Option.bind_eq_Some_conv many1_iff lit_iff
      starts_with_simps not_digit_seps)

lemma version_blender_part_iff:
  "version_blender_part s = Some ((br, bf, bp), rest) \<longleftrightarrow>
     run is_digit br \<and> run is_digit bf \<and> run is_digit bp \<and>
     s = ''.'' @ br @ ''.'' @ bf @ ''.'' @ bp @ rest \<and> \<not> starts_with is_digit rest"
  by (auto simp add: version_blender_part_def Option.bind_eq_Some_conv lit_iff
      version_blender_version_part_iff)

lemma version_state_part_iff:
  "version_state_part s = Some ((st, i), rest) \<longleftrightarrow>
     (\<exists>c. st = [c] \<and> is_digit c) \<and> run is_digit i \<and>
     s = ''.'' @ st @ ''.'' @ i @ rest \<and> \<not> starts_with is_digit rest"
  by (auto simp add: version_state_part_def Option.bind_eq_Some_conv many1_iff lit_iff one_iff)

lemma at_end_not_starts: "at_end e \<Longrightarrow> \<not> starts_with is_digit e"
  by (auto simp add: at_end_def starts_with_simps not_digit_seps)

lemma opt_build_Some_iff:
  "opt_build c s = Some (Some m, r) \<longleftrightarrow> run is_digit m \<and> s = c # m @ r \<and> \<not> starts_with is_digit r"
proof -
  have "run is_digit m \<and> s = c # m @ r \<and> \<not> starts_with is_digit r \<longleftrightarrow>
      (\<exists>t. lit c s = Some t \<and> many1 is_digit t = Some (m, r))"
    by (auto simp add: lit_iff many1_iff)
  then show ?thesis
    by (auto simp add: opt_build_def split: option.splits)
qed

lemma opt_build_None_iff:
  "opt_build c s = Some (None, r) \<longleftrightarrow> r = s \<and> \<not> (\<exists>x t. is_digit x \<and> s = c # x # t)"
proof (cases "lit c s")
  case None
  then show ?thesis
    by (auto simp add: opt_build_def lit_def split: list.splits if_splits)
next
  case (Some t)
  then have s: "s = c # t" by (simp add: lit_iff)
  show ?thesis
  proof (cases "many1 is_digit t")
    case None
    then have "takeWhile is_digit t = []"
      by (simp add: many1_def split: if_splits)
    then have "\<not> starts_with is_digit t"
      by (cases t) (auto simp add: starts_with_simps split: if_splits)
    with Some None s show ?thesis
      by (auto simp add: opt_build_def starts_with_simps)
  next
    case (Some mr)
    obtain m r' where mr: "mr = (m, r')" by (cases mr)
    with Some have "run is_digit m" "t = m @ r'"
      by (simp_all add: many1_iff)
    then obtain x xs where "m = x # xs" "is_digit x"
      by (cases m) (auto simp add: run_def)
    with \<open>t = m @ r'\<close> s \<open>lit c s = Some t\<close> Some mr show ?thesis
      by (auto simp add: opt_build_def)
  qed
qed

lemma opt_build_at_end_iff:
  assumes "c \<noteq> CHR 0x0A"
  shows "(\<exists>r. opt_build c s = Some (b, r) \<and> at_end r) \<longleftrightarrow>
    opt_run is_digit b \<and> (\<exists>e. at_end e \<and> s = opt_text [c] b @ e)"
proof (cases b)
  case None
  have "at_end s \<Longrightarrow> \<not> (\<exists>x t. is_digit x \<and> s = c # x # t)"
    using assms by (auto simp add: at_end_def)
  with None show ?thesis
    by (auto simp add: opt_build_None_iff opt_run_def opt_text_def)
next
  case (Some m)
  then show ?thesis
    by (auto simp add: opt_build_Some_iff opt_run_def opt_text_def at_end_not_starts)
qed

lemma opt_many1_iff:
  "opt_many1 P s = Some (x, r) \<longleftrightarrow>
     opt_run P x \<and> s = opt_text [] x @ r \<and> \<not> starts_with P r"
proof (cases "many1 P s")
  case None
  then have "takeWhile P s = []"
    by (simp add: many1_def split: if_splits)
  then have ns: "\<not> starts_with P s"
    by (cases s) (auto simp add: starts_with_simps split: if_splits)
  have "\<not> (run P m \<and> s = m @ r)" for m r
    using ns by (cases m) (auto simp add: run_def starts_with_simps)
  with None ns show ?thesis
    by (cases x) (auto simp add: opt_many1_def opt_run_def opt_text_def)
next
  case (Some mr)
  obtain m r' where mr: "mr = (m, r')" by (cases mr)
  with Some have k: "run P m" "s = m @ r'" "\<not> starts_with P r'"
    by (simp_all add: many1_iff)
  then have st: "starts_with P s"
    by (cases m) (auto simp add: run_def starts_with_simps)
  have "opt_many1 P s = Some (Some m, r')"
    using Some mr by (simp add: opt_many1_def)
  moreover have "run P m' \<and> s = m' @ r \<and> \<not> starts_with P r \<longleftrightarrow> m' = m \<and> r = r'" for m'
    using Some mr many1_iff [of P s m' r] by auto
  ultimately show ?thesis
    using st by (cases x) (auto simp add: opt_run_def opt_text_def)
qed

lemma digit_not_letter: "is_digit c \<Longrightarrow> \<not> is_letter c"
  by (auto simp add: is_digit_def is_letter_def digits_def)

lemma not_letter_dash: "\<not> is_letter CHR ''-''"
  by (simp add: is_letter_def)

lemma not_starts_letter_increment:
  "opt_run is_digit i \<Longrightarrow> \<not> starts_with is_letter (opt_text [] i @ CHR ''-'' # rest)"
proof (cases i)
  case None
  then show ?thesis
    by (simp add: opt_text_def starts_with_simps not_letter_dash)
next
  case (Some m)
  assume "opt_run is_digit i"
  with Some obtain x xs where "m = x # xs" "is_digit x"
    by (cases m) (auto simp add: opt_run_def run_def)
  with Some show ?thesis
    by (simp add: opt_text_def starts_with_simps digit_not_letter)
qed

lemma semver_prerelease_part_iff:
  "semver_prerelease_part s = Some ((st, i, br, bf, bp), rest) \<longleftrightarrow>
     run is_letter st \<and> opt_run is_digit i \<and> run is_digit br \<and> run is_digit bf \<and>
     run is_digit bp \<and>
     s = ''-'' @ st @ opt_text [] i @ ''-'' @ br @ ''.'' @ bf @ ''.'' @ bp @ rest \<and>
     \<not> starts_with is_digit rest"
proof -
  have "semver_prerelease_part s = Some ((st, i, br, bf, bp), rest) \<longleftrightarrow>
      (\<exists>s1 s2 s3. s = CHR ''-'' # s1 \<and> many1 is_letter s1 = Some (st, s2) \<and>
         opt_many1 is_digit s2 = Some (i, CHR ''-'' # s3) \<and>
         version_blender_version_part s3 = Some ((br, bf, bp), rest))"
    by (auto simp add: semver_prerelease_part_def Option.bind_eq_Some_conv lit_iff)
  also have "\<dots> \<longleftrightarrow> run is_letter st \<and> opt_run is_digit i \<and> run is_digit br \<and> run is_digit bf \<and>
     run is_digit bp \<and>
     s = ''-'' @ st @ opt_text [] i @ ''-'' @ br @ ''.'' @ bf @ ''.'' @ bp @ rest \<and>
     \<not> starts_with is_digit rest"
    by (auto simp add: many1_iff opt_many1_iff version_blender_version_part_iff
        starts_with_simps not_digit_seps not_starts_letter_increment)
  finally show ?thesis .
qed


lemma at_end_cases: "at_end e \<longleftrightarrow> e = [] \<or> e = [CHR 0x0A]"
  by (simp add: at_end_def)

lemma not_starts_build_end:
  "opt_run is_digit b \<Longrightarrow> at_end e \<Longrightarrow> \<not> is_digit c \<Longrightarrow>
   \<not> starts_with is_digit (opt_text [c] b @ e)"
  by (cases b) (auto simp add: opt_text_def starts_with_simps at_end_def not_digit_seps)

lemma opt_build_complete:
  assumes "opt_run is_digit b" and "at_end e" and "c \<noteq> CHR 0x0A"
  shows "opt_build c (opt_text [c] b @ e) = Some (b, e)"
proof (cases b)
  case None
  have "\<not> (\<exists>x t. is_digit x \<and> e = c # x # t)"
    using assms(2,3) by (auto simp add: at_end_def)
  with None show ?thesis
    by (simp add: opt_build_None_iff opt_text_def)
next
  case (Some m)
  with assms show ?thesis
    by (simp add: opt_build_Some_iff opt_text_def opt_run_def at_end_not_starts)
qed

text \<open>
  The dotted grammar as a whole: \<open>match_version\<close> returns the captures \<open>d\<close> exactly when
  the string is \<^verbatim>\<open>R.F.P.S.I.BR.BF.BP\<close>, an optional \<^verbatim>\<open>.B\<close> and an optional final line feed,
  with \<open>d\<close> holding the pieces. The captures are unique, since the scanner is a function.
\<close>

theorem match_version_iff:
  "match_version s = Some d \<longleftrightarrow>
     (\<exists>c i e.
        run is_digit (g_r d) \<and> run is_digit (g_f d) \<and> run is_digit (g_p d) \<and>
        g_s d = [c] \<and> is_digit c \<and> g_i d = Some i \<and> run is_digit i \<and>
        run is_digit (g_br d) \<and> run is_digit (g_bf d) \<and> run is_digit (g_bp d) \<and>
        opt_run is_digit (g_b d) \<and> at_end e \<and>
        s = g_r d @ ''.'' @ g_f d @ ''.'' @ g_p d @ ''.'' @ [c] @ ''.'' @ i @ ''.'' @ g_br d
            @ ''.'' @ g_bf d @ ''.'' @ g_bp d @ opt_text ''.'' (g_b d) @ e)"
  (is "?L \<longleftrightarrow> ?R")
proof
  assume ?L
  then obtain r f p s1 st i s2 br bf bp s3 b s4 where
    1: "version_part s = Some ((r, f, p), s1)" and
    2: "version_state_part s1 = Some ((st, i), s2)" and
    3: "version_blender_part s2 = Some ((br, bf, bp), s3)" and
    4: "opt_build CHR ''.'' s3 = Some (b, s4)" and
    5: "at_end s4" and
    d: "d = \<lparr>g_r = r, g_f = f, g_p = p, g_s = st, g_i = Some i, g_br = br, g_bf = bf,
            g_bp = bp, g_b = b\<rparr>"
    by (auto simp add: match_version_def version_build_part_def Option.bind_eq_Some_conv
        split: if_splits)
  from 4 5 have 6: "opt_run is_digit b \<and> (\<exists>e. at_end e \<and> s3 = opt_text ''.'' b @ e)"
    using opt_build_at_end_iff [of "CHR ''.''" s3 b] by auto
  with 1 2 3 d show ?R
    by (auto simp add: version_part_iff version_state_part_iff version_blender_part_iff)
next
  assume ?R
  then obtain c i e where
    r: "run is_digit (g_r d)" "run is_digit (g_f d)" "run is_digit (g_p d)"
       "g_s d = [c]" "is_digit c" "g_i d = Some i" "run is_digit i"
       "run is_digit (g_br d)" "run is_digit (g_bf d)" "run is_digit (g_bp d)"
       "opt_run is_digit (g_b d)" "at_end e" and
    s: "s = g_r d @ ''.'' @ g_f d @ ''.'' @ g_p d @ ''.'' @ [c] @ ''.'' @ i @ ''.'' @ g_br d
            @ ''.'' @ g_bf d @ ''.'' @ g_bp d @ opt_text ''.'' (g_b d) @ e"
    by blast
  define s3 where "s3 = opt_text ''.'' (g_b d) @ e"
  define s2 where "s2 = ''.'' @ g_br d @ ''.'' @ g_bf d @ ''.'' @ g_bp d @ s3"
  define s1 where "s1 = ''.'' @ [c] @ ''.'' @ i @ s2"
  have n3: "\<not> starts_with is_digit s3"
    unfolding s3_def using r by (intro not_starts_build_end) (simp_all add: not_digit_seps)
  have 1: "version_part s = Some ((g_r d, g_f d, g_p d), s1)"
    using r s by (simp add: version_part_iff s1_def s2_def s3_def starts_with_simps not_digit_seps)
  have 2: "version_state_part s1 = Some ((g_s d, i), s2)"
    using r by (simp add: version_state_part_iff s1_def s2_def starts_with_simps not_digit_seps)
  have 3: "version_blender_part s2 = Some ((g_br d, g_bf d, g_bp d), s3)"
    using r n3 by (simp add: version_blender_part_iff s2_def)
  have 4: "opt_build CHR ''.'' s3 = Some (g_b d, e) \<and> at_end e"
    unfolding s3_def using r by (simp add: opt_build_complete)
  from 1 2 3 4 r show ?L
    by (cases d) (simp add: match_version_def version_build_part_def)
qed

text \<open>
  The semver grammar as a whole: \<open>match_semver\<close> returns the captures \<open>d\<close> exactly when
  the string is \<^verbatim>\<open>R.F.P-S[I]-BR.BF.BP\<close>, an optional \<^verbatim>\<open>+B\<close> and an optional final line
  feed, with \<open>d\<close> holding the pieces.
\<close>

theorem match_semver_iff:
  "match_semver s = Some d \<longleftrightarrow>
     (\<exists>e.
        run is_digit (g_r d) \<and> run is_digit (g_f d) \<and> run is_digit (g_p d) \<and>
        run is_letter (g_s d) \<and> opt_run is_digit (g_i d) \<and>
        run is_digit (g_br d) \<and> run is_digit (g_bf d) \<and> run is_digit (g_bp d) \<and>
        opt_run is_digit (g_b d) \<and> at_end e \<and>
        s = g_r d @ ''.'' @ g_f d @ ''.'' @ g_p d @ ''-'' @ g_s d @ opt_text [] (g_i d) @ ''-''
            @ g_br d @ ''.'' @ g_bf d @ ''.'' @ g_bp d @ opt_text ''+'' (g_b d) @ e)"
  (is "?L \<longleftrightarrow> ?R")
proof
  assume ?L
  then obtain r f p s1 st i br bf bp s2 b s3 where
    1: "version_part s = Some ((r, f, p), s1)" and
    2: "semver_prerelease_part s1 = Some ((st, i, br, bf, bp), s2)" and
    3: "opt_build CHR ''+'' s2 = Some (b, s3)" and
    4: "at_end s3" and
    d: "d = \<lparr>g_r = r, g_f = f, g_p = p, g_s = st, g_i = i, g_br = br, g_bf = bf,
            g_bp = bp, g_b = b\<rparr>"
    by (auto simp add: match_semver_def semver_build_part_def Option.bind_eq_Some_conv
        split: if_splits)
  from 3 4 have "opt_run is_digit b \<and> (\<exists>e. at_end e \<and> s2 = opt_text ''+'' b @ e)"
    using opt_build_at_end_iff [of "CHR ''+''" s2 b] by auto
  with 1 2 d show ?R
    by (auto simp add: version_part_iff semver_prerelease_part_iff)
next
  assume ?R
  then obtain e where
    r: "run is_digit (g_r d)" "run is_digit (g_f d)" "run is_digit (g_p d)"
       "run is_letter (g_s d)" "opt_run is_digit (g_i d)"
       "run is_digit (g_br d)" "run is_digit (g_bf d)" "run is_digit (g_bp d)"
       "opt_run is_digit (g_b d)" "at_end e" and
    s: "s = g_r d @ ''.'' @ g_f d @ ''.'' @ g_p d @ ''-'' @ g_s d @ opt_text [] (g_i d) @ ''-''
            @ g_br d @ ''.'' @ g_bf d @ ''.'' @ g_bp d @ opt_text ''+'' (g_b d) @ e"
    by blast
  define s2 where "s2 = opt_text ''+'' (g_b d) @ e"
  define s1 where "s1 = ''-'' @ g_s d @ opt_text [] (g_i d) @ ''-'' @ g_br d @ ''.'' @ g_bf d
    @ ''.'' @ g_bp d @ s2"
  have n2: "\<not> starts_with is_digit s2"
    unfolding s2_def using r by (intro not_starts_build_end) (simp_all add: not_digit_seps)
  have 1: "version_part s = Some ((g_r d, g_f d, g_p d), s1)"
    using r s by (simp add: version_part_iff s1_def s2_def starts_with_simps not_digit_seps)
  have 2: "semver_prerelease_part s1 = Some ((g_s d, g_i d, g_br d, g_bf d, g_bp d), s2)"
    using r n2 by (simp add: semver_prerelease_part_iff s1_def)
  have 3: "opt_build CHR ''+'' s2 = Some (g_b d, e) \<and> at_end e"
    unfolding s2_def using r by (simp add: opt_build_complete)
  from 1 2 3 show ?L
    by (cases d) (simp add: match_semver_def semver_build_part_def)
qed

subsection \<open>Scanning a rendering\<close>

lemma many1_show_nat:
  "\<not> is_digit c \<Longrightarrow> many1 is_digit (show_nat n @ c # rest) = Some (show_nat n, c # rest)"
  by (simp add: many1_iff run_show_nat starts_with_simps)

lemma many1_show_nat_end: "many1 is_digit (show_nat n) = Some (show_nat n, [])"
  by (simp add: many1_iff run_show_nat starts_with_simps)

lemma show_nat_Cons: "\<exists>d ds. show_nat n = d # ds \<and> is_digit d"
  using show_nat_all_digits [of n] show_nat_not_Nil [of n]
  by (cases "show_nat n") simp_all

lemma match_version_dotted:
  "k < 10 \<Longrightarrow>
   match_version (show_nat r @ CHR ''.'' # show_nat f @ CHR ''.'' # show_nat p @ CHR ''.''
      # digit_char k # CHR ''.'' # show_nat i @ CHR ''.'' # show_nat br @ CHR ''.''
      # show_nat bf @ CHR ''.'' # show_nat bp @ CHR ''.'' # show_nat b) =
   Some \<lparr>g_r = show_nat r, g_f = show_nat f, g_p = show_nat p, g_s = [digit_char k],
         g_i = Some (show_nat i), g_br = show_nat br, g_bf = show_nat bf, g_bp = show_nat bp,
         g_b = Some (show_nat b)\<rparr>"
  by (simp add: match_version_def version_part_def version_state_part_def
      version_blender_part_def version_blender_version_part_def version_build_part_def
      many1_show_nat many1_show_nat_end not_digit_seps lit_def one_def is_digit_digit_char
      opt_build_def at_end_def)

lemma show_state_value: "show_int (state_value s) = [digit_char (nat (state_value s))]"
  by (cases s) (simp_all add: show_int_def show_nat.simps)

lemma from_value_digit:
  "ReleaseState_from_value (StrArg [digit_char (nat (state_value s))]) = Inr s"
  by (cases s)
    (simp_all add: digit_char_def py_int_def is_digit_def nat_of_digits_def digit_val_def
      digits_def err_bind_def ReleaseState_call_def)

lemma from_dict_dotted:
  "Version_from_dict
     \<lparr>g_r = show_nat r, g_f = show_nat f, g_p = show_nat p,
      g_s = [digit_char (nat (state_value s))],
      g_i = Some (show_nat i), g_br = show_nat br, g_bf = show_nat bf, g_bp = show_nat bp,
      g_b = Some (show_nat b)\<rparr> =
   Inr \<lparr>release = int r, feature = int f, patch = int p, state = Member s, increment = int i,
        brelease = int br, bfeature = int bf, bpatch = int bp, build = int b\<rparr>"
  by (simp add: Version_from_dict_def py_int_show_nat from_value_digit int_or_0_def
      show_nat_not_Nil err_bind_def Version_from_tuple_def
      del: ReleaseState_from_value.simps)

lemma from_string_dotted:
  "br \<noteq> 0 \<Longrightarrow>
   Version_from_string (show_nat r @ CHR ''.'' # show_nat f @ CHR ''.'' # show_nat p @ CHR ''.''
      # digit_char (nat (state_value s)) # CHR ''.'' # show_nat i @ CHR ''.'' # show_nat br
      @ CHR ''.'' # show_nat bf @ CHR ''.'' # show_nat bp @ CHR ''.'' # show_nat b) =
   Inr \<lparr>release = int r, feature = int f, patch = int p, state = Member s, increment = int i,
        brelease = int br, bfeature = int bf, bpatch = int bp, build = int b\<rparr>"
  by (simp add: Version_from_string_def match_version_dotted state_value_below_10
      from_dict_dotted err_bind_def Version_validate_blender_def)

lemma str_dotted:
  assumes "state v = Member s" and "nonneg_fields v"
  shows "Version_str v =
    Inr (show_nat (nat (release v)) @ CHR ''.'' # show_nat (nat (feature v)) @ CHR ''.''
      # show_nat (nat (patch v)) @ CHR ''.'' # digit_char (nat (state_value s)) # CHR ''.''
      # show_nat (nat (increment v)) @ CHR ''.'' # show_nat (nat (brelease v)) @ CHR ''.''
      # show_nat (nat (bfeature v)) @ CHR ''.'' # show_nat (nat (bpatch v)) @ CHR ''.''
      # show_nat (nat (build v)))"
  using assms
  by (simp add: Version_str_def Version_to_tuple_def err_bind_def tuple_ints_def
      nonneg_fields_def show_int_nonneg show_state_value)

lemma nonneg_fields_rebuild:
  assumes "state v = Member s" and "nonneg_fields v"
  shows "\<lparr>release = int (nat (release v)), feature = int (nat (feature v)),
          patch = int (nat (patch v)), state = Member s,
          increment = int (nat (increment v)), brelease = int (nat (brelease v)),
          bfeature = int (nat (bfeature v)), bpatch = int (nat (bpatch v)),
          build = int (nat (build v))\<rparr> = v"
  using assms by (cases v) (simp add: nonneg_fields_def)

lemma from_string_str:
  assumes "state v = Member s" and "nonneg_fields v" and "brelease v \<noteq> 0"
  shows "err_bind (Version_str v) Version_from_string = Inr v"
proof -
  from assms have "nat (brelease v) \<noteq> 0"
    by (simp add: nonneg_fields_def)
  note nz = this
  have "err_bind (Version_str v) Version_from_string =
      Version_from_string (show_nat (nat (release v)) @ CHR ''.'' # show_nat (nat (feature v))
        @ CHR ''.'' # show_nat (nat (patch v)) @ CHR ''.'' # digit_char (nat (state_value s))
        # CHR ''.'' # show_nat (nat (increment v)) @ CHR ''.'' # show_nat (nat (brelease v))
        @ CHR ''.'' # show_nat (nat (bfeature v)) @ CHR ''.'' # show_nat (nat (bpatch v))
        @ CHR ''.'' # show_nat (nat (build v)))"
    by (simp only: str_dotted [OF assms(1,2)] err_bind_def sum.case)
  also have "\<dots> = Inr v"
    by (simp only: from_string_dotted [OF nz] nonneg_fields_rebuild [OF assms(1,2)])
  finally show ?thesis .
qed

lemma run_state_name: "run is_letter (state_name s)"
  by (cases s) (simp_all add: run_def is_letter_def)

lemma many1_name_show_nat:
  "many1 is_letter (state_name s @ show_nat n @ rest) = Some (state_name s, show_nat n @ rest)"
proof -
  obtain d ds where "show_nat n = d # ds" "is_digit d"
    using show_nat_Cons by blast
  then show ?thesis
    by (simp add: many1_iff run_state_name starts_with_simps digit_not_letter)
qed

lemma many1_name_dash:
  "many1 is_letter (state_name s @ CHR ''-'' # rest) = Some (state_name s, CHR ''-'' # rest)"
  by (simp add: many1_iff run_state_name starts_with_simps not_letter_dash)

lemma match_version_semver_None:
  "match_version (show_nat r @ CHR ''.'' # show_nat f @ CHR ''.'' # show_nat p @ CHR ''-'' # rest)
     = None"
  by (simp add: match_version_def version_part_def version_state_part_def many1_show_nat
      not_digit_seps lit_def)

lemma opt_build_plus:
  "opt_build CHR ''+'' (CHR ''+'' # show_nat b) = Some (Some (show_nat b), [])"
  by (simp add: opt_build_def lit_def many1_show_nat_end)

lemma opt_build_Nil: "opt_build c [] = Some (None, [])"
  by (simp add: opt_build_def lit_def)

lemma opt_many1_show_nat:
  "\<not> is_digit c \<Longrightarrow> opt_many1 is_digit (show_nat n @ c # rest) = Some (Some (show_nat n), c # rest)"
  by (simp add: opt_many1_def many1_show_nat)

lemma opt_many1_dash: "opt_many1 is_digit (CHR ''-'' # rest) = Some (None, CHR ''-'' # rest)"
  by (simp add: opt_many1_def many1_def not_digit_seps)

lemma int_or_0_build_capture: "int_or_0 (build_capture b) = Inr (int b)"
  by (simp add: build_capture_def int_or_0_def show_nat_not_Nil py_int_show_nat)

lemma int_or_0_show_nat: "int_or_0 (Some (show_nat i)) = Inr (int i)"
  by (simp add: int_or_0_def show_nat_not_Nil py_int_show_nat)

lemma match_semver_prerelease:
  "match_semver (show_nat r @ CHR ''.'' # show_nat f @ CHR ''.'' # show_nat p @ CHR ''-''
      # state_name s @ show_nat i @ CHR ''-'' # semver_tail br bf bp b) =
   Some \<lparr>g_r = show_nat r, g_f = show_nat f, g_p = show_nat p, g_s = state_name s,
         g_i = Some (show_nat i), g_br = show_nat br, g_bf = show_nat bf, g_bp = show_nat bp,
         g_b = build_capture b\<rparr>"
  by (simp add: match_semver_def version_part_def semver_prerelease_part_def
      version_blender_version_part_def semver_build_part_def semver_tail_def many1_show_nat
      many1_show_nat_end
      not_digit_seps lit_def many1_name_show_nat opt_many1_show_nat opt_build_plus opt_build_Nil
      at_end_def build_capture_def)

lemma match_semver_stable:
  "match_semver (show_nat r @ CHR ''.'' # show_nat f @ CHR ''.'' # show_nat p @ CHR ''-''
      # state_name s @ CHR ''-'' # semver_tail br bf bp b) =
   Some \<lparr>g_r = show_nat r, g_f = show_nat f, g_p = show_nat p, g_s = state_name s,
         g_i = None, g_br = show_nat br, g_bf = show_nat bf, g_bp = show_nat bp,
         g_b = build_capture b\<rparr>"
  by (simp add: match_semver_def version_part_def semver_prerelease_part_def
      version_blender_version_part_def semver_build_part_def semver_tail_def many1_show_nat
      many1_show_nat_end
      not_digit_seps lit_def many1_name_dash opt_many1_dash opt_build_plus opt_build_Nil
      at_end_def build_capture_def)

lemma from_value_name: "ReleaseState_from_value (StrArg (state_name s)) = Inr s"
  by (cases s) (simp_all add: ReleaseState_item_def)

lemma from_dict_semver:
  "int_or_0 gi = Inr i \<Longrightarrow>
   Version_from_dict
     \<lparr>g_r = show_nat r, g_f = show_nat f, g_p = show_nat p, g_s = state_name s,
      g_i = gi, g_br = show_nat br, g_bf = show_nat bf, g_bp = show_nat bp,
      g_b = build_capture b\<rparr> =
   Inr \<lparr>release = int r, feature = int f, patch = int p, state = Member s, increment = i,
        brelease = int br, bfeature = int bf, bpatch = int bp, build = int b\<rparr>"
  by (simp add: Version_from_dict_def py_int_show_nat from_value_name int_or_0_build_capture
      err_bind_def Version_from_tuple_def del: ReleaseState_from_value.simps)

lemma int_or_0_None: "int_or_0 None = Inr 0"
  by (simp add: int_or_0_def)

lemma from_string_semver_prerelease:
  "br \<noteq> 0 \<Longrightarrow>
   Version_from_string (show_nat r @ CHR ''.'' # show_nat f @ CHR ''.'' # show_nat p @ CHR ''-''
      # state_name s @ show_nat i @ CHR ''-'' # semver_tail br bf bp b) =
   Inr \<lparr>release = int r, feature = int f, patch = int p, state = Member s, increment = int i,
        brelease = int br, bfeature = int bf, bpatch = int bp, build = int b\<rparr>"
  by (simp add: Version_from_string_def match_version_semver_None Version_from_semver_string_def
      match_semver_prerelease from_dict_semver [OF int_or_0_show_nat]
      err_bind_def Version_validate_blender_def)

lemma from_string_semver_stable:
  "br \<noteq> 0 \<Longrightarrow>
   Version_from_string (show_nat r @ CHR ''.'' # show_nat f @ CHR ''.'' # show_nat p @ CHR ''-''
      # state_name s @ CHR ''-'' # semver_tail br bf bp b) =
   Inr \<lparr>release = int r, feature = int f, patch = int p, state = Member s, increment = 0,
        brelease = int br, bfeature = int bf, bpatch = int bp, build = int b\<rparr>"
  by (simp add: Version_from_string_def match_version_semver_None Version_from_semver_string_def
      match_semver_stable from_dict_semver [OF int_or_0_None]
      err_bind_def Version_validate_blender_def)

lemma to_semver_prerelease:
  assumes "state v = Member s" and "nonneg_fields v" and "s \<noteq> STABLE"
  shows "Version_to_semver v =
    Inr (show_nat (nat (release v)) @ CHR ''.'' # show_nat (nat (feature v)) @ CHR ''.''
      # show_nat (nat (patch v)) @ CHR ''-'' # state_name s @ show_nat (nat (increment v))
      @ CHR ''-''
      # semver_tail (nat (brelease v)) (nat (bfeature v)) (nat (bpatch v)) (nat (build v)))"
  using assms
  by (cases s)
    (simp_all add: Version_to_semver_def err_bind_def nonneg_fields_def show_int_nonneg
      semver_tail_def)

lemma to_semver_stable:
  assumes "state v = Member STABLE" and "nonneg_fields v"
  shows "Version_to_semver v =
    Inr (show_nat (nat (release v)) @ CHR ''.'' # show_nat (nat (feature v)) @ CHR ''.''
      # show_nat (nat (patch v)) @ CHR ''-'' # state_name STABLE @ CHR ''-''
      # semver_tail (nat (brelease v)) (nat (bfeature v)) (nat (bpatch v)) (nat (build v)))"
  using assms
  by (simp add: Version_to_semver_def err_bind_def nonneg_fields_def show_int_nonneg
      semver_tail_def)

lemma from_string_to_semver:
  assumes "state v = Member s" and "nonneg_fields v" and "brelease v \<noteq> 0"
  shows "err_bind (Version_to_semver v) Version_from_string =
    Inr (if s = STABLE then v\<lparr>increment := 0\<rparr> else v)"
proof -
  from assms have nz: "nat (brelease v) \<noteq> 0"
    by (simp add: nonneg_fields_def)
  show ?thesis
  proof (cases "s = STABLE")
    case True
    with assms have st: "state v = Member STABLE" by simp
    have "err_bind (Version_to_semver v) Version_from_string =
        Inr \<lparr>release = int (nat (release v)), feature = int (nat (feature v)),
          patch = int (nat (patch v)), state = Member STABLE, increment = 0,
          brelease = int (nat (brelease v)), bfeature = int (nat (bfeature v)),
          bpatch = int (nat (bpatch v)), build = int (nat (build v))\<rparr>"
      by (simp only: to_semver_stable [OF st assms(2)] err_bind_def sum.case
          from_string_semver_stable [OF nz])
    also have "\<dots> = Inr (v\<lparr>increment := 0\<rparr>)"
      using st assms(2) by (cases v) (simp add: nonneg_fields_def)
    finally show ?thesis using True by simp
  next
    case False
    have "err_bind (Version_to_semver v) Version_from_string =
        Inr \<lparr>release = int (nat (release v)), feature = int (nat (feature v)),
          patch = int (nat (patch v)), state = Member s, increment = int (nat (increment v)),
          brelease = int (nat (brelease v)), bfeature = int (nat (bfeature v)),
          bpatch = int (nat (bpatch v)), build = int (nat (build v))\<rparr>"
      by (simp only: to_semver_prerelease [OF assms(1,2) False] err_bind_def sum.case
          from_string_semver_prerelease [OF nz])
    also have "\<dots> = Inr v"
      by (simp only: nonneg_fields_rebuild [OF assms(1,2)])
    finally show ?thesis using False by simp
  qed
qed

subsection \<open>Validation, bumping and tuples\<close>

lemma no_blender_msg_blender: "str_contains ''blender'' no_blender_msg"
  by (simp add: no_blender_msg_def)

lemma validated_Inr:
  "err_bind m (\<lambda>result. err_bind (Version_validate_blender result) (\<lambda>_. Inr result)) = Inr v
   \<Longrightarrow> m = Inr v \<and> brelease v \<noteq> 0"
  by (cases m) (auto simp add: err_bind_def Version_validate_blender_def split: if_splits)

lemma validated_zero:
  "m = Inr r \<Longrightarrow> brelease r = 0 \<Longrightarrow>
   err_bind m (\<lambda>result. err_bind (Version_validate_blender result) (\<lambda>_. Inr result)) =
     Inl (ValueError no_blender_msg)"
  by (simp add: err_bind_def Version_validate_blender_def)

lemma from_semver_string_Inr:
  "Version_from_semver_string s = Inr v \<Longrightarrow> brelease v \<noteq> 0"
  using validated_Inr
  by (fastforce simp add: Version_from_semver_string_def split: option.splits)

lemma from_string_Inr: "Version_from_string s = Inr v \<Longrightarrow> brelease v \<noteq> 0"
proof (cases "match_version s")
  case None
  assume "Version_from_string s = Inr v"
  with None have "Version_from_semver_string s = Inr v"
    by (auto simp add: Version_from_string_def split: sum.splits error.splits if_splits)
  then show ?thesis by (rule from_semver_string_Inr)
next
  case (Some d)
  assume "Version_from_string s = Inr v"
  with Some show ?thesis
    using validated_Inr [of "Version_from_dict d" v] by (simp add: Version_from_string_def)
qed

lemma from_string_dotted_zero:
  "match_version s = Some d \<Longrightarrow> Version_from_dict d = Inr r \<Longrightarrow> brelease r = 0 \<Longrightarrow>
   Version_from_string s = Inl (ValueError no_blender_msg)"
  by (simp add: Version_from_string_def validated_zero)

lemma from_string_semver_zero:
  "match_version s = None \<Longrightarrow> match_semver s = Some d \<Longrightarrow> Version_from_dict d = Inr r \<Longrightarrow>
   brelease r = 0 \<Longrightarrow> Version_from_string s = Inl (ValueError no_blender_msg)"
  by (simp add: Version_from_string_def Version_from_semver_string_def validated_zero
      no_blender_msg_blender)

lemma bump_Inr:
  "Version_bump v rf ff pf sf incf bld bl = Inr v' \<Longrightarrow> brelease v' \<noteq> 0"
  by (auto simp add: Version_bump_def err_bind_def Let_def Version_validate_blender_def
      split: sum.splits if_splits)

lemma bump_zero:
  "bump_tuple v rf ff pf sf incf bld bl = Inr t \<Longrightarrow> t5 t = 0 \<Longrightarrow>
   Version_bump v rf ff pf sf incf bld bl = Inl (ValueError no_blender_msg)"
  by (simp add: Version_bump_def err_bind_def Version_validate_blender_def Version_from_tuple_def)

lemma to_tuple_Member:
  "state v = Member s \<Longrightarrow>
   Version_to_tuple v =
     Inr \<lparr>t0 = release v, t1 = feature v, t2 = patch v, t3 = Plain (state_value s),
          t4 = increment v, t5 = brelease v, t6 = bfeature v, t7 = bpatch v, t8 = build v\<rparr>"
  by (simp add: Version_to_tuple_def err_bind_def)

lemma from_value_state_value: "ReleaseState_from_value (IntArg (state_value s)) = Inr s"
  by (cases s) (simp_all add: ReleaseState_call_def)

lemma ReleaseState_bump_Member:
  "ReleaseState_bump (Member s) =
     Inr (Member (case s of ALPHA \<Rightarrow> BETA | BETA \<Rightarrow> RC | RC \<Rightarrow> STABLE | STABLE \<Rightarrow> STABLE))"
  by (cases s) (simp_all add: ReleaseState_bump_def ReleaseState_call_def err_bind_def)

lemma bump_state:
  assumes "state v = Member s" and "brelease v \<noteq> 0"
  shows "Version_bump v False False False True incf None None =
    Inr (v\<lparr>state := Member (case s of ALPHA \<Rightarrow> BETA | BETA \<Rightarrow> RC | RC \<Rightarrow> STABLE
                                      | STABLE \<Rightarrow> STABLE),
           increment := 1, build := 0\<rparr>)"
  using assms
  by (cases v)
    (simp add: Version_bump_def bump_tuple_def bump_axis_def to_tuple_Member
      from_value_state_value ReleaseState_bump_Member err_bind_def Version_from_tuple_def
      Version_validate_blender_def bool_int_def
      del: ReleaseState_from_value.simps)

lemma bump_build_nonzero:
  assumes "b \<noteq> 0" and "Version_bump v rf ff pf sf incf (Some b) bl = Inr v'"
  shows "build v' = b"
proof -
  obtain t where t: "bump_tuple v rf ff pf sf incf (Some b) bl = Inr t" and v': "v' = Version_from_tuple t"
    using assms(2)
    by (cases "bump_tuple v rf ff pf sf incf (Some b) bl")
      (auto simp add: Version_bump_def err_bind_def Let_def split: sum.splits)
  from t assms(1) have "t8 t = b"
    by (auto simp add: bump_tuple_def err_bind_def Let_def split: sum.splits option.splits)
  with v' show ?thesis by (simp add: Version_from_tuple_def)
qed

lemma bump_build_flagged:
  assumes "rf \<or> ff \<or> pf \<or> sf \<or> incf" and "Version_bump v rf ff pf sf incf (Some b) bl = Inr v'"
  shows "build v' = b"
proof -
  obtain t where t: "bump_tuple v rf ff pf sf incf (Some b) bl = Inr t" and v': "v' = Version_from_tuple t"
    using assms(2)
    by (cases "bump_tuple v rf ff pf sf incf (Some b) bl")
      (auto simp add: Version_bump_def err_bind_def Let_def split: sum.splits)
  from t assms(1) have "t8 t = b"
    by (auto simp add: bump_tuple_def err_bind_def Let_def split: sum.splits option.splits)
  with v' show ?thesis by (simp add: Version_from_tuple_def)
qed

lemma to_tuple_from_tuple_Member:
  "t3 t = Member s \<Longrightarrow>
   \<exists>t'. Version_to_tuple (Version_from_tuple t) = Inr t' \<and> tuple_eq t' t"
  by (simp add: Version_to_tuple_def Version_from_tuple_def err_bind_def tuple_eq_def
      tuple_ints_def)

lemma to_tuple_from_tuple_Plain:
  "t3 t = Plain n \<Longrightarrow> Version_to_tuple (Version_from_tuple t) = Inl (no_attribute ''value'')"
  by (simp add: Version_to_tuple_def Version_from_tuple_def err_bind_def)

section \<open>The claims\<close>

subsection \<open>C1: bumping the state\<close>

text \<open>
  Claim C1: for every version with a valid host floor, \<^verbatim>\<open>Version.bump(v, state=True)\<close> sets
  the state to \<^verbatim>\<open>ReleaseState.bump(v.state)\<close> and the increment to 1, except that the
  increment is 0 when the new state is \<^verbatim>\<open>STABLE\<close>; bumping a version whose state is
  \<^verbatim>\<open>RC\<close> yields \<^verbatim>\<open>STABLE\<close> with increment 0.

  The code compares the flag \<^verbatim>\<open>state\<close>, which is \<^verbatim>\<open>True\<close>, with
  \<^verbatim>\<open>ReleaseState.STABLE\<close>, and \<^verbatim>\<open>True == 4\<close> is false: the increment is 1 whatever the
  new state is (\<open>bump_state\<close>). At \<^verbatim>\<open>Version(1,0,0,RC,2,2,93,0,0)\<close> the code returns
  \<^verbatim>\<open>STABLE\<close> with increment 1, where the claim says increment 0.
\<close>

theorem bump_state_rc_gives_increment_1:
  "Version_bump (Version_init 1 0 0 (Member RC) 2 2 93 0 0) False False False True False
     None None =
   Inr (Version_init 1 0 0 (Member STABLE) 1 2 93 0 0)"
  by (simp add: bump_state [where s = RC])

subsection \<open>C2: parsing a rendering\<close>

text \<open>
  Claim C2, as amended: for every version \<open>v\<close> whose state is a member of the enum, whose
  numeric fields are not negative and whose \<^verbatim>\<open>brelease\<close> is not 0,
  \<^verbatim>\<open>Version.from_string(str(v))\<close> returns \<open>v\<close>, and
  \<^verbatim>\<open>Version.from_string(Version.to_semver(v))\<close> returns \<open>v\<close> when the state is not
  \<^verbatim>\<open>STABLE\<close> and \<open>v\<close> with its increment replaced by 0 when the state is \<^verbatim>\<open>STABLE\<close>
  (the semver rendering leaves the increment of a stable version out). The version returned
  is the very value, so it is equal to \<open>v\<close> for \<^verbatim>\<open>==\<close> too.
\<close>

theorem from_string_roundtrip:
  assumes "state v = Member s" and "nonneg_fields v" and "brelease v \<noteq> 0"
  shows "err_bind (Version_str v) Version_from_string = Inr v \<and>
         err_bind (Version_to_semver v) Version_from_string =
           Inr (if s = STABLE then v\<lparr>increment := 0\<rparr> else v)"
  using from_string_str [OF assms] from_string_to_semver [OF assms] by simp

text \<open>
  Witness of C2: \<^verbatim>\<open>Version(1,0,0,RC,2,2,93,0,234)\<close>, rendered as
  \<^verbatim>\<open>1.0.0.3.2.2.93.0.234\<close> and \<^verbatim>\<open>1.0.0-RC2-2.93.0+234\<close>, is read back from both.
\<close>

theorem from_string_roundtrip_witness:
  "state (Version_init 1 0 0 (Member RC) 2 2 93 0 234) = Member RC \<and>
   nonneg_fields (Version_init 1 0 0 (Member RC) 2 2 93 0 234) \<and>
   brelease (Version_init 1 0 0 (Member RC) 2 2 93 0 234) \<noteq> 0 \<and>
   err_bind (Version_str (Version_init 1 0 0 (Member RC) 2 2 93 0 234)) Version_from_string =
     Inr (Version_init 1 0 0 (Member RC) 2 2 93 0 234) \<and>
   err_bind (Version_to_semver (Version_init 1 0 0 (Member RC) 2 2 93 0 234))
     Version_from_string =
     Inr (Version_init 1 0 0 (Member RC) 2 2 93 0 234)"
proof -
  have h1: "state (Version_init 1 0 0 (Member RC) 2 2 93 0 234) = Member RC"
    by simp
  have h2: "nonneg_fields (Version_init 1 0 0 (Member RC) 2 2 93 0 234)"
    by (simp add: nonneg_fields_def)
  have h3: "brelease (Version_init 1 0 0 (Member RC) 2 2 93 0 234) \<noteq> 0"
    by simp
  from from_string_roundtrip [OF h1 h2 h3] h1 h2 h3 show ?thesis
    by simp
qed

text \<open>
  Counterexample to C2 as stated: \<^verbatim>\<open>Version(1,0,0,STABLE,1,2,93,0,0)\<close>, which
  \<^verbatim>\<open>Version.from_string('1.0.0.4.1.2.93.0.0')\<close> returns, has a \<^verbatim>\<open>brelease\<close> other than 0;
  its semver rendering is \<^verbatim>\<open>1.0.0-STABLE-2.93.0\<close>, which is read back as
  \<^verbatim>\<open>Version(1,0,0,STABLE,0,2,93,0,0)\<close>, a version that is not equal to it.
\<close>

theorem to_semver_stable_increment_lost:
  "Version_from_string ''1.0.0.4.1.2.93.0.0'' =
     Inr (Version_init 1 0 0 (Member STABLE) 1 2 93 0 0) \<and>
   brelease (Version_init 1 0 0 (Member STABLE) 1 2 93 0 0) \<noteq> 0 \<and>
   Version_to_semver (Version_init 1 0 0 (Member STABLE) 1 2 93 0 0) =
     Inr ''1.0.0-STABLE-2.93.0'' \<and>
   err_bind (Version_to_semver (Version_init 1 0 0 (Member STABLE) 1 2 93 0 0))
     Version_from_string =
     Inr (Version_init 1 0 0 (Member STABLE) 0 2 93 0 0) \<and>
   \<not> Version_eq (Version_init 1 0 0 (Member STABLE) 0 2 93 0 0)
        (Version_init 1 0 0 (Member STABLE) 1 2 93 0 0)"
  by code_simp

subsection \<open>C3: the order\<close>

text \<open>
  Claim C3, as amended: under the order of the dataclass, which compares the fields in the
  order of their declaration, \<^verbatim>\<open>Version(1,0,0,BETA,1,2,93,0,0) < Version(1,0,1,ALPHA,1,2,93,0,0)\<close>
  evaluates to true (\<^verbatim>\<open>patch\<close> is compared before \<^verbatim>\<open>state\<close>, and 0 is less than 1), and
  \<^verbatim>\<open>Version(1,0,0,ALPHA,1,2,93,0,0) < Version(1,0,0,BETA,1,2,93,0,0)\<close> evaluates to true.
\<close>

theorem Version_lt_examples:
  "Version_lt (Version_init 1 0 0 (Member BETA) 1 2 93 0 0)
     (Version_init 1 0 1 (Member ALPHA) 1 2 93 0 0) \<and>
   Version_lt (Version_init 1 0 0 (Member ALPHA) 1 2 93 0 0)
     (Version_init 1 0 0 (Member BETA) 1 2 93 0 0)"
  by (simp add: Version_lt_def Version_fields_def)

text \<open>
  Counterexample to C3 as stated: the first comparison does not evaluate to false.
\<close>

theorem Version_lt_beta_patch_not_false:
  "\<not> (Version_lt (Version_init 1 0 0 (Member BETA) 1 2 93 0 0)
         (Version_init 1 0 1 (Member ALPHA) 1 2 93 0 0) = False \<and>
       Version_lt (Version_init 1 0 0 (Member ALPHA) 1 2 93 0 0)
         (Version_init 1 0 0 (Member BETA) 1 2 93 0 0) = True)"
  by (simp add: Version_lt_def Version_fields_def)

subsection \<open>C4: the error for a missing host floor is not masked\<close>

text \<open>
  Claim C4: \<^verbatim>\<open>Version.from_string("1.0.0-ALPHA1-0.0.0")\<close> fails with the error whose
  message is \<^verbatim>\<open>no blender min version requirement specified\<close>, not with the error that
  names both encodings; and whenever the dotted grammar does not match, the semver grammar
  matches and the captures decode to a version whose \<^verbatim>\<open>brelease\<close> is 0,
  \<^verbatim>\<open>from_string\<close> fails with that error and not with the one that names both encodings.
\<close>

theorem from_string_host_floor_unmasked:
  "Version_from_string ''1.0.0-ALPHA1-0.0.0'' =
     Inl (ValueError ''no blender min version requirement specified'') \<and>
   Version_from_string ''1.0.0-ALPHA1-0.0.0'' \<noteq>
     Inl (ValueError (no_version_msg ''1.0.0-ALPHA1-0.0.0'')) \<and>
   (match_version version = None \<longrightarrow> match_semver version = Some d \<longrightarrow>
    Version_from_dict d = Inr v \<longrightarrow> brelease v = 0 \<longrightarrow>
      Version_from_string version =
        Inl (ValueError ''no blender min version requirement specified'') \<and>
      Version_from_string version \<noteq> Inl (ValueError (no_version_msg version)))"
proof (intro conjI impI)
  show c: "Version_from_string ''1.0.0-ALPHA1-0.0.0'' =
      Inl (ValueError ''no blender min version requirement specified'')"
    by code_simp
  show "Version_from_string ''1.0.0-ALPHA1-0.0.0'' \<noteq>
      Inl (ValueError (no_version_msg ''1.0.0-ALPHA1-0.0.0''))"
    by (simp add: c no_version_msg_def quoted_def)
next
  assume h: "match_version version = None" "match_semver version = Some d"
    "Version_from_dict d = Inr v" "brelease v = 0"
  from from_string_semver_zero [OF h]
  show g: "Version_from_string version =
      Inl (ValueError ''no blender min version requirement specified'')"
    by (simp add: no_blender_msg_def)
  show "Version_from_string version \<noteq> Inl (ValueError (no_version_msg version))"
    by (simp add: g no_version_msg_def quoted_def)
qed

text \<open>
  Witness of C4: \<^verbatim>\<open>1.0.0-ALPHA1-0.0.0\<close> is not matched by the dotted grammar, is matched
  by the semver grammar, and its captures decode to \<^verbatim>\<open>Version(1,0,0,ALPHA,1,0,0,0,0)\<close>.
\<close>

theorem from_string_host_floor_unmasked_witness:
  "match_version ''1.0.0-ALPHA1-0.0.0'' = None \<and>
   match_semver ''1.0.0-ALPHA1-0.0.0'' =
     Some \<lparr>g_r = ''1'', g_f = ''0'', g_p = ''0'', g_s = ''ALPHA'', g_i = Some ''1'',
           g_br = ''0'', g_bf = ''0'', g_bp = ''0'', g_b = None\<rparr> \<and>
   Version_from_dict
     \<lparr>g_r = ''1'', g_f = ''0'', g_p = ''0'', g_s = ''ALPHA'', g_i = Some ''1'',
      g_br = ''0'', g_bf = ''0'', g_bp = ''0'', g_b = None\<rparr> =
     Inr (Version_init 1 0 0 (Member ALPHA) 1 0 0 0 0) \<and>
   brelease (Version_init 1 0 0 (Member ALPHA) 1 0 0 0 0) = 0 \<and>
   Version_from_string ''1.0.0-ALPHA1-0.0.0'' =
     Inl (ValueError ''no blender min version requirement specified'') \<and>
   Version_from_string ''1.0.0-ALPHA1-0.0.0'' \<noteq>
     Inl (ValueError (no_version_msg ''1.0.0-ALPHA1-0.0.0''))"
proof -
  have h1: "match_version ''1.0.0-ALPHA1-0.0.0'' = None"
    by code_simp
  have h2: "match_semver ''1.0.0-ALPHA1-0.0.0'' =
      Some \<lparr>g_r = ''1'', g_f = ''0'', g_p = ''0'', g_s = ''ALPHA'', g_i = Some ''1'',
            g_br = ''0'', g_bf = ''0'', g_bp = ''0'', g_b = None\<rparr>"
    by code_simp
  have h3: "Version_from_dict
      \<lparr>g_r = ''1'', g_f = ''0'', g_p = ''0'', g_s = ''ALPHA'', g_i = Some ''1'',
       g_br = ''0'', g_bf = ''0'', g_bp = ''0'', g_b = None\<rparr> =
      Inr (Version_init 1 0 0 (Member ALPHA) 1 0 0 0 0)"
    by code_simp
  have h4: "brelease (Version_init 1 0 0 (Member ALPHA) 1 0 0 0 0) = 0"
    by simp
  note r = from_string_host_floor_unmasked
    [THEN conjunct2, THEN conjunct2, rule_format, OF h1 h2 h3 h4]
  from h1 h2 h3 h4 r [THEN conjunct1] r [THEN conjunct2] show ?thesis
    by - (intro conjI; assumption)
qed

subsection \<open>C5: the host floor of every version returned\<close>

text \<open>
  Claim C5: every version that \<^verbatim>\<open>Version.from_string\<close> (by either grammar) or
  \<^verbatim>\<open>Version.bump\<close> returns has a \<^verbatim>\<open>brelease\<close> other than 0; and when the captures of
  either grammar decode to a version whose \<^verbatim>\<open>brelease\<close> is 0, or the tuple that
  \<^verbatim>\<open>bump\<close> has built holds 0 at index 5, the operation fails with the error for a missing
  host floor.
\<close>

theorem host_floor_enforced:
  "(Version_from_string version = Inr v \<longrightarrow> brelease v \<noteq> 0) \<and>
   (Version_bump w rf ff pf sf incf bld bl = Inr v' \<longrightarrow> brelease v' \<noteq> 0) \<and>
   (match_version version1 = Some d1 \<longrightarrow> Version_from_dict d1 = Inr r1 \<longrightarrow> brelease r1 = 0 \<longrightarrow>
      Version_from_string version1 = Inl (ValueError no_blender_msg)) \<and>
   (match_version version2 = None \<longrightarrow> match_semver version2 = Some d2 \<longrightarrow>
    Version_from_dict d2 = Inr r2 \<longrightarrow> brelease r2 = 0 \<longrightarrow>
      Version_from_string version2 = Inl (ValueError no_blender_msg)) \<and>
   (bump_tuple w3 rf3 ff3 pf3 sf3 incf3 bld3 bl3 = Inr t \<longrightarrow> t5 t = 0 \<longrightarrow>
      Version_bump w3 rf3 ff3 pf3 sf3 incf3 bld3 bl3 = Inl (ValueError no_blender_msg))"
proof (intro conjI impI)
  assume "Version_from_string version = Inr v"
  then show "brelease v \<noteq> 0"
    by (rule from_string_Inr)
next
  assume "Version_bump w rf ff pf sf incf bld bl = Inr v'"
  then show "brelease v' \<noteq> 0"
    by (rule bump_Inr)
next
  assume "match_version version1 = Some d1" and "Version_from_dict d1 = Inr r1"
    and "brelease r1 = 0"
  then show "Version_from_string version1 = Inl (ValueError no_blender_msg)"
    by (rule from_string_dotted_zero)
next
  assume "match_version version2 = None" and "match_semver version2 = Some d2"
    and "Version_from_dict d2 = Inr r2" and "brelease r2 = 0"
  then show "Version_from_string version2 = Inl (ValueError no_blender_msg)"
    by (rule from_string_semver_zero)
next
  assume "bump_tuple w3 rf3 ff3 pf3 sf3 incf3 bld3 bl3 = Inr t" and "t5 t = 0"
  then show "Version_bump w3 rf3 ff3 pf3 sf3 incf3 bld3 bl3 = Inl (ValueError no_blender_msg)"
    by (rule bump_zero)
qed

text \<open>
  Witness of C5: \<^verbatim>\<open>1.0.0.1.1.2.93.0.0\<close> is read as a version with \<^verbatim>\<open>brelease\<close> 2, and
  bumping the patch of that version keeps it; \<^verbatim>\<open>1.0.0.1.1.0.0.0\<close> and
  \<^verbatim>\<open>1.0.0-ALPHA1-0.0.0\<close> decode to a \<^verbatim>\<open>brelease\<close> of 0 and fail, and so does a bump to
  the host floor \<^verbatim>\<open>(0, 0, 0)\<close>.
\<close>

theorem host_floor_enforced_witness:
  "Version_from_string ''1.0.0.1.1.2.93.0.0'' = Inr (Version_init 1 0 0 (Member ALPHA) 1 2 93 0 0) \<and>
   brelease (Version_init 1 0 0 (Member ALPHA) 1 2 93 0 0) \<noteq> 0 \<and>
   Version_bump (Version_init 1 0 0 (Member ALPHA) 1 2 93 0 0) False False True False False
     None None = Inr (Version_init 1 0 1 (Member ALPHA) 1 2 93 0 0) \<and>
   brelease (Version_init 1 0 1 (Member ALPHA) 1 2 93 0 0) \<noteq> 0 \<and>
   match_version ''1.0.0.1.1.0.0.0'' =
     Some \<lparr>g_r = ''1'', g_f = ''0'', g_p = ''0'', g_s = ''1'', g_i = Some ''1'',
           g_br = ''0'', g_bf = ''0'', g_bp = ''0'', g_b = None\<rparr> \<and>
   Version_from_dict
     \<lparr>g_r = ''1'', g_f = ''0'', g_p = ''0'', g_s = ''1'', g_i = Some ''1'',
      g_br = ''0'', g_bf = ''0'', g_bp = ''0'', g_b = None\<rparr> =
     Inr (Version_init 1 0 0 (Member ALPHA) 1 0 0 0 0) \<and>
   brelease (Version_init 1 0 0 (Member ALPHA) 1 0 0 0 0) = 0 \<and>
   Version_from_string ''1.0.0.1.1.0.0.0'' = Inl (ValueError no_blender_msg) \<and>
   match_version ''1.0.0-ALPHA1-0.0.0'' = None \<and>
   match_semver ''1.0.0-ALPHA1-0.0.0'' =
     Some \<lparr>g_r = ''1'', g_f = ''0'', g_p = ''0'', g_s = ''ALPHA'', g_i = Some ''1'',
           g_br = ''0'', g_bf = ''0'', g_bp = ''0'', g_b = None\<rparr> \<and>
   Version_from_dict
     \<lparr>g_r = ''1'', g_f = ''0'', g_p = ''0'', g_s = ''ALPHA'', g_i = Some ''1'',
      g_br = ''0'', g_bf = ''0'', g_bp = ''0'', g_b = None\<rparr> =
     Inr (Version_init 1 0 0 (Member ALPHA) 1 0 0 0 0) \<and>
   Version_from_string ''1.0.0-ALPHA1-0.0.0'' = Inl (ValueError no_blender_msg) \<and>
   bump_tuple (Version_init 1 0 0 (Member ALPHA) 1 2 93 0 0) False False False False False
     None (Some (0, 0, 0)) =
     Inr (tuple_init 1 0 0 (Member ALPHA) 1 0 0 0 0) \<and>
   t5 (tuple_init 1 0 0 (Member ALPHA) 1 0 0 0 0) = 0 \<and>
   Version_bump (Version_init 1 0 0 (Member ALPHA) 1 2 93 0 0) False False False False False
     None (Some (0, 0, 0)) = Inl (ValueError no_blender_msg)"
proof -
  have a1: "Version_from_string ''1.0.0.1.1.2.93.0.0'' =
      Inr (Version_init 1 0 0 (Member ALPHA) 1 2 93 0 0)"
    by code_simp
  have a2: "Version_bump (Version_init 1 0 0 (Member ALPHA) 1 2 93 0 0) False False True False
      False None None = Inr (Version_init 1 0 1 (Member ALPHA) 1 2 93 0 0)"
    by code_simp
  have b1: "match_version ''1.0.0.1.1.0.0.0'' =
      Some \<lparr>g_r = ''1'', g_f = ''0'', g_p = ''0'', g_s = ''1'', g_i = Some ''1'',
            g_br = ''0'', g_bf = ''0'', g_bp = ''0'', g_b = None\<rparr>"
    by code_simp
  have b2: "Version_from_dict
      \<lparr>g_r = ''1'', g_f = ''0'', g_p = ''0'', g_s = ''1'', g_i = Some ''1'',
       g_br = ''0'', g_bf = ''0'', g_bp = ''0'', g_b = None\<rparr> =
      Inr (Version_init 1 0 0 (Member ALPHA) 1 0 0 0 0)"
    by code_simp
  have z: "brelease (Version_init 1 0 0 (Member ALPHA) 1 0 0 0 0) = 0"
    by simp
  have c1: "match_version ''1.0.0-ALPHA1-0.0.0'' = None"
    by code_simp
  have c2: "match_semver ''1.0.0-ALPHA1-0.0.0'' =
      Some \<lparr>g_r = ''1'', g_f = ''0'', g_p = ''0'', g_s = ''ALPHA'', g_i = Some ''1'',
            g_br = ''0'', g_bf = ''0'', g_bp = ''0'', g_b = None\<rparr>"
    by code_simp
  have c3: "Version_from_dict
      \<lparr>g_r = ''1'', g_f = ''0'', g_p = ''0'', g_s = ''ALPHA'', g_i = Some ''1'',
       g_br = ''0'', g_bf = ''0'', g_bp = ''0'', g_b = None\<rparr> =
      Inr (Version_init 1 0 0 (Member ALPHA) 1 0 0 0 0)"
    by code_simp
  have d1: "bump_tuple (Version_init 1 0 0 (Member ALPHA) 1 2 93 0 0) False False False False
      False None (Some (0, 0, 0)) = Inr (tuple_init 1 0 0 (Member ALPHA) 1 0 0 0 0)"
    by code_simp
  have d2: "t5 (tuple_init 1 0 0 (Member ALPHA) 1 0 0 0 0) = 0"
    by simp
  note hf = host_floor_enforced
    [where version = "''1.0.0.1.1.2.93.0.0''"
       and v = "Version_init 1 0 0 (Member ALPHA) 1 2 93 0 0"
       and w = "Version_init 1 0 0 (Member ALPHA) 1 2 93 0 0"
       and rf = False and ff = False and pf = True and sf = False and incf = False
       and bld = None and bl = None
       and v' = "Version_init 1 0 1 (Member ALPHA) 1 2 93 0 0"
       and ?version1.0 = "''1.0.0.1.1.0.0.0''" and ?version2.0 = "''1.0.0-ALPHA1-0.0.0''"
       and ?w3.0 = "Version_init 1 0 0 (Member ALPHA) 1 2 93 0 0"
       and ?rf3.0 = False and ?ff3.0 = False and ?pf3.0 = False and ?sf3.0 = False
       and ?incf3.0 = False and ?bld3.0 = None and ?bl3.0 = "Some (0, 0, 0)"]
  from hf a1 have e1: "brelease (Version_init 1 0 0 (Member ALPHA) 1 2 93 0 0) \<noteq> 0"
    by blast
  from hf a2 have e2: "brelease (Version_init 1 0 1 (Member ALPHA) 1 2 93 0 0) \<noteq> 0"
    by blast
  from hf b1 b2 z have e3: "Version_from_string ''1.0.0.1.1.0.0.0'' =
      Inl (ValueError no_blender_msg)"
    by blast
  from hf c1 c2 c3 z have e4: "Version_from_string ''1.0.0-ALPHA1-0.0.0'' =
      Inl (ValueError no_blender_msg)"
    by blast
  from hf d1 d2 have e5: "Version_bump (Version_init 1 0 0 (Member ALPHA) 1 2 93 0 0) False
      False False False False None (Some (0, 0, 0)) = Inl (ValueError no_blender_msg)"
    by blast
  from a1 a2 b1 b2 z c1 c2 c3 d1 d2 e1 e2 e3 e4 e5 show ?thesis
    by - (intro conjI; assumption)
qed

subsection \<open>C6: a tuple and back\<close>

text \<open>
  Claim C6: for every tuple of nine integers that are not negative, with a \<^verbatim>\<open>brelease\<close>
  above 0 and a state component in 1..4, \<^verbatim>\<open>Version.from_tuple(t)\<close> succeeds and
  \<^verbatim>\<open>Version.to_tuple(Version.from_tuple(t)) == t\<close>.

  \<^verbatim>\<open>from_tuple\<close> stores the state component as it is. For the tuple of plain integers
  \<^verbatim>\<open>(1, 0, 0, 1, 1, 2, 93, 0, 0)\<close>, a tuple of \<^verbatim>\<open>bl_info\<close>, the field \<^verbatim>\<open>state\<close> is the
  plain integer 1, and \<^verbatim>\<open>to_tuple\<close> fails on \<^verbatim>\<open>version.state.value\<close> with an
  \<^verbatim>\<open>AttributeError\<close>, where the claim says it returns the tuple. When the state component
  is a member of the enum the tuple comes back (\<open>to_tuple_from_tuple_Member\<close>).
\<close>

theorem to_tuple_from_tuple_plain_fails:
  "Version_to_tuple (Version_from_tuple (tuple_init 1 0 0 (Plain 1) 1 2 93 0 0)) =
     Inl (no_attribute ''value'')"
  by (simp add: to_tuple_from_tuple_Plain [where n = 1])

subsection \<open>C7: the build argument\<close>

text \<open>
  Claim C7: for every version with a valid host floor and every build argument \<open>b\<close> that
  is supplied, the version that \<^verbatim>\<open>Version.bump(v, ..., build=b)\<close> returns has the build
  \<open>b\<close>, whatever flags are set and whatever the build of \<open>v\<close> was.

  The code tests \<^verbatim>\<open>if build:\<close>, which is false for the argument 0 as it is for \<open>None\<close>.
  \<^verbatim>\<open>Version.bump(Version(1,0,0,ALPHA,1,2,93,0,5), build=0)\<close> returns a version whose build
  is still 5, where the claim says 0. The claim holds for every argument other than 0
  (\<open>bump_build_nonzero\<close>) and whenever a flag is set (\<open>bump_build_flagged\<close>).
\<close>

theorem bump_build_0_keeps_build:
  "Version_bump (Version_init 1 0 0 (Member ALPHA) 1 2 93 0 5) False False False False False
     (Some 0) None =
   Inr (Version_init 1 0 0 (Member ALPHA) 1 2 93 0 5)"
  by code_simp

subsection \<open>C8: bumping the release\<close>

text \<open>
  Claim C8: for every version \<open>v\<close> with a valid host floor, and no \<^verbatim>\<open>build\<close> or
  \<^verbatim>\<open>blender\<close> argument, \<^verbatim>\<open>Version.bump(v, release=True)\<close> returns a version with the
  release of \<open>v\<close> plus 1, feature 0, patch 0, state \<^verbatim>\<open>ALPHA\<close>, increment 1 and build 0
  (the host floor is the one of \<open>v\<close>; the other flags make no difference).
\<close>

theorem bump_release_resets:
  assumes "state v = Member s" and "brelease v \<noteq> 0"
  shows "Version_bump v True ff pf sf incf None None =
    Inr (v\<lparr>release := release v + 1, feature := 0, patch := 0, state := Member ALPHA,
           increment := 1, build := 0\<rparr>)"
  using assms
  by (cases v)
    (simp add: Version_bump_def bump_tuple_def bump_axis_def to_tuple_Member
      from_value_state_value err_bind_def Version_from_tuple_def Version_validate_blender_def
      del: ReleaseState_from_value.simps)

text \<open>
  Witness of C8: \<^verbatim>\<open>Version(1,4,7,RC,2,2,93,0,5)\<close> is bumped to
  \<^verbatim>\<open>Version(2,0,0,ALPHA,1,2,93,0,0)\<close>.
\<close>

theorem bump_release_resets_witness:
  "state (Version_init 1 4 7 (Member RC) 2 2 93 0 5) = Member RC \<and>
   brelease (Version_init 1 4 7 (Member RC) 2 2 93 0 5) \<noteq> 0 \<and>
   Version_bump (Version_init 1 4 7 (Member RC) 2 2 93 0 5) True False False False False
     None None =
   Inr (Version_init 2 0 0 (Member ALPHA) 1 2 93 0 0)"
proof -
  have h1: "state (Version_init 1 4 7 (Member RC) 2 2 93 0 5) = Member RC"
    by simp
  have h2: "brelease (Version_init 1 4 7 (Member RC) 2 2 93 0 5) \<noteq> 0"
    by simp
  from bump_release_resets [OF h1 h2, of False False False False] h1 h2 show ?thesis
    by simp
qed

subsection \<open>C9: bumping the patch\<close>

text \<open>
  Claim C9: for every version \<open>v\<close> with a valid host floor, and no \<^verbatim>\<open>build\<close> or
  \<^verbatim>\<open>blender\<close> argument, \<^verbatim>\<open>Version.bump(v, patch=True)\<close> returns a version whose patch is
  the patch of \<open>v\<close> plus 1 and whose build is 0, with the release, feature, state,
  increment and host floor of \<open>v\<close>.
\<close>

theorem bump_patch_frame:
  assumes "state v = Member s" and "brelease v \<noteq> 0"
  shows "Version_bump v False False True sf incf None None =
    Inr (v\<lparr>patch := patch v + 1, build := 0\<rparr>)"
  using assms
  by (cases v)
    (simp add: Version_bump_def bump_tuple_def bump_axis_def to_tuple_Member
      from_value_state_value err_bind_def Version_from_tuple_def Version_validate_blender_def
      del: ReleaseState_from_value.simps)

text \<open>
  Witness of C9: \<^verbatim>\<open>Version(1,4,7,RC,2,2,93,0,5)\<close> is bumped to
  \<^verbatim>\<open>Version(1,4,8,RC,2,2,93,0,0)\<close>.
\<close>

theorem bump_patch_frame_witness:
  "state (Version_init 1 4 7 (Member RC) 2 2 93 0 5) = Member RC \<and>
   brelease (Version_init 1 4 7 (Member RC) 2 2 93 0 5) \<noteq> 0 \<and>
   Version_bump (Version_init 1 4 7 (Member RC) 2 2 93 0 5) False False True False False
     None None =
   Inr (Version_init 1 4 8 (Member RC) 2 2 93 0 0)"
proof -
  have h1: "state (Version_init 1 4 7 (Member RC) 2 2 93 0 5) = Member RC"
    by simp
  have h2: "brelease (Version_init 1 4 7 (Member RC) 2 2 93 0 5) \<noteq> 0"
    by simp
  from bump_patch_frame [OF h1 h2, of False False] h1 h2 show ?thesis
    by simp
qed

subsection \<open>C10: no validation in \<^verbatim>\<open>from_tuple\<close>\<close>

text \<open>
  Claim C10: \<^verbatim>\<open>Version.from_tuple\<close> does not validate the host floor: for every tuple
  whose \<^verbatim>\<open>brelease\<close> component is 0 it returns a version, with the components of the tuple
  as its fields and so with a \<^verbatim>\<open>brelease\<close> of 0, a version that
  \<^verbatim>\<open>Version._validate_blender\<close> rejects. (\<open>Version_from_tuple\<close> is a total function that
  returns a version, not a sum: on a tuple of nine the constructor raises nothing.)
\<close>

theorem from_tuple_not_validated:
  assumes "t5 t = 0"
  shows "Version_from_tuple t =
      Version_init (t0 t) (t1 t) (t2 t) (t3 t) (t4 t) 0 (t6 t) (t7 t) (t8 t) \<and>
    brelease (Version_from_tuple t) = 0 \<and>
    Version_validate_blender (Version_from_tuple t) = Inl (ValueError no_blender_msg)"
  using assms by (simp add: Version_from_tuple_def Version_validate_blender_def)

text \<open>
  Witness of C10: the tuple \<^verbatim>\<open>(1, 0, 0, 1, 1, 0, 0, 0, 0)\<close>.
\<close>

theorem from_tuple_not_validated_witness:
  "t5 (tuple_init 1 0 0 (Plain 1) 1 0 0 0 0) = 0 \<and>
   Version_from_tuple (tuple_init 1 0 0 (Plain 1) 1 0 0 0 0) =
     Version_init 1 0 0 (Plain 1) 1 0 0 0 0 \<and>
   brelease (Version_from_tuple (tuple_init 1 0 0 (Plain 1) 1 0 0 0 0)) = 0 \<and>
   Version_validate_blender (Version_from_tuple (tuple_init 1 0 0 (Plain 1) 1 0 0 0 0)) =
     Inl (ValueError no_blender_msg)"
proof -
  have h: "t5 (tuple_init 1 0 0 (Plain 1) 1 0 0 0 0) = 0"
    by simp
  from from_tuple_not_validated [OF h] h show ?thesis
    by (simp add: Version_from_tuple_def Version_validate_blender_def)
qed

end
